theory Spec2Isabelle
  imports Main
begin

section \<open>Documents of the task-management backend\<close>

text \<open>
  The backend keeps its data in MongoDB collections (Project, Board, Task, Activity,
  Notification), read and written through Mongoose models. A collection is modelled as a
  finite map from the document's \<open>_id\<close> to the document, which is what the unique index
  on \<open>_id\<close> makes it; Activity and Notification documents are never looked up by id
  here, so those collections are lists in insertion order. An ObjectId is an opaque
  identifier compared for equality only (the routes compare \<open>toString()\<close> values), so it
  is a natural number. Fields that no route below reads or branches on (timestamps, labels,
  attachments, due dates, the free-form \<open>data\<close> payload of an activity, the message text
  of a notification) are left out of the records.
\<close>

type_synonym oid = nat

datatype role = Owner | Admin | Member

record member =
  m_user :: oid
  m_role :: role

record project =
  p_name :: string
  p_description :: string
  p_owner :: oid
  p_members :: "member list"

record column =
  c_id :: oid
  c_title :: string
  c_order :: nat
  taskIds :: "oid list"

record board =
  b_title :: string
  b_description :: string
  b_project :: oid
  columns :: "column list"
  columnOrder :: "oid list"

record task =
  t_title :: string
  t_description :: string
  t_board :: oid
  t_column :: oid
  t_order :: int
  t_assignedTo :: "oid list"
  t_createdBy :: oid

record activity =
  a_user :: oid
  a_action :: string
  a_entityType :: string
  a_entityId :: oid
  a_projectId :: oid
  a_boardId :: "oid option"

record notification =
  n_recipient :: oid
  n_sender :: oid
  n_type :: string
  n_entityType :: string
  n_entityId :: oid
  n_projectId :: "oid option"

record db =
  projects :: "oid \<rightharpoonup> project"
  boards :: "oid \<rightharpoonup> board"
  tasks :: "oid \<rightharpoonup> task"
  activities :: "activity list"
  notifications :: "notification list"

text \<open>
  Every route answers with an HTTP status. 400 is the spec's ValidationError, 403 its
  Forbidden, 404 its NotFound, 500 its ServerError; 200 and 201 are both \<open>Ok\<close>. A handler
  returns its reply together with the database it leaves behind.
\<close>

datatype error = ValidationError | Forbidden | NotFound | ServerError

datatype reply = Ok | Err error

section \<open>JavaScript array and string primitives\<close>

text \<open>\<open>Array.prototype.findIndex\<close>: the first index whose element satisfies the
  predicate; \<open>None\<close> stands for the result \<open>-1\<close>.\<close>

fun findIndex :: "('a \<Rightarrow> bool) \<Rightarrow> 'a list \<Rightarrow> nat option" where
  "findIndex P [] = None"
| "findIndex P (x # xs) = (if P x then Some 0 else map_option Suc (findIndex P xs))"

text \<open>The position at which \<open>Array.prototype.splice\<close> starts: a negative start counts
  from the end and stops at 0, any other start stops at the length.\<close>

definition spliceStart :: "nat \<Rightarrow> int \<Rightarrow> nat" where
  "spliceStart len start =
     (if start < 0 then nat (max (int len + start) 0) else nat (min start (int len)))"

text \<open>\<open>xs.splice(start, deleteCount, ...items)\<close>, as the array it leaves behind.\<close>

definition array_splice :: "'a list \<Rightarrow> int \<Rightarrow> nat \<Rightarrow> 'a list \<Rightarrow> 'a list" where
  "array_splice xs start deleteCount items =
     (let a = spliceStart (length xs) start;
          d = min deleteCount (length xs - a)
      in take a xs @ items @ drop (a + d) xs)"

text \<open>\<open>String.prototype.trim\<close> on ASCII text; Mongoose applies it to every schema
  string declared with \<open>trim: true\<close>, and its \<open>required\<close> validator then rejects the
  empty string when the document is saved.\<close>

definition isSpace :: "char \<Rightarrow> bool" where
  "isSpace ch = (ch \<in> set [CHR 0x09, CHR 0x0A, CHR 0x0B, CHR 0x0C, CHR 0x0D, CHR 0x20])"

definition trim :: "string \<Rightarrow> string" where
  "trim str = rev (dropWhile isSpace (rev (dropWhile isSpace str)))"

text \<open>A number in a JSON body is a double. For an integer literal \<open>n\<close>, \<open>JSON.parse\<close>
  yields the double nearest to \<open>n\<close>, ties going to the even significand of 53 bits:
  \<open>dropBits\<close> counts the low bits that do not fit, and \<open>jsonNumber n\<close> is the value
  of that double. (Beyond the largest double the parser yields \<open>Infinity\<close>; the value here
  is then finite but, like \<open>Infinity\<close>, fails every check made of it below.)\<close>

function dropBits :: "nat \<Rightarrow> nat" where
  "dropBits m = (if m < 2 ^ 53 then 0 else Suc (dropBits (m div 2)))"
  by pat_completeness auto
termination
  by (relation "measure (\<lambda>m. m)") auto

declare dropBits.simps [simp del]

definition jsonNumber :: "int \<Rightarrow> int" where
  "jsonNumber n =
     (let m = nat \<bar>n\<bar>;
          e = dropBits m;
          q = m div 2 ^ e;
          r = m mod 2 ^ e;
          q' = (if 2 * r > 2 ^ e \<or> (2 * r = 2 ^ e \<and> odd q) then q + 1 else q)
      in sgn n * int (q' * 2 ^ e))"

text \<open>The validator \<open>isNumeric\<close> of express-validator tests the string of the value
  against an optional sign and decimal digits. The string of an integer-valued double is
  its decimal digits when its magnitude is below \<open>10^21\<close> and has an exponent part
  (\<open>1e+21\<close>) from there on, which the validator rejects.\<close>

definition isNumeric :: "int \<Rightarrow> bool" where
  "isNumeric d = (\<bar>d\<bar> < 10 ^ 21)"

text \<open>\<open>Model.deleteMany(filter)\<close> on a collection, for a filter on the document and
  for the filter \<open>{_id: {$in: ids}}\<close>.\<close>

definition deleteMany :: "('v \<Rightarrow> bool) \<Rightarrow> (oid \<rightharpoonup> 'v) \<Rightarrow> (oid \<rightharpoonup> 'v)" where
  "deleteMany P m = (\<lambda>k. case m k of None \<Rightarrow> None | Some v \<Rightarrow> if P v then None else Some v)"

definition deleteIds :: "oid list \<Rightarrow> (oid \<rightharpoonup> 'v) \<Rightarrow> (oid \<rightharpoonup> 'v)" where
  "deleteIds ids m = (\<lambda>k. if k \<in> set ids then None else m k)"

section \<open>Model hooks\<close>

text \<open>\<open>projectSchema.pre('save')\<close> for a new document: the owner is pushed onto the
  members with role owner unless already there.\<close>

definition project_pre_save :: "project \<Rightarrow> project" where
  "project_pre_save p =
     (if list_ex (\<lambda>m. m_user m = p_owner p \<and> m_role m = Owner) (p_members p) then p
      else p\<lparr>p_members := p_members p @ [\<lparr>m_user = p_owner p, m_role = Owner\<rparr>]\<rparr>)"

text \<open>\<open>boardSchema.pre('save')\<close>: a new board without columns gets the three default
  columns; \<open>c1\<close>, \<open>c2\<close>, \<open>c3\<close> are the ObjectIds the hook generates.\<close>

definition board_pre_save :: "bool \<Rightarrow> oid \<Rightarrow> oid \<Rightarrow> oid \<Rightarrow> board \<Rightarrow> board" where
  "board_pre_save isNew c1 c2 c3 b =
     (if isNew \<and> length (columns b) = 0 then
        (let todoColumn = \<lparr>c_id = c1, c_title = ''To Do'', c_order = 0, taskIds = []\<rparr>;
             inProgressColumn = \<lparr>c_id = c2, c_title = ''In Progress'', c_order = 1, taskIds = []\<rparr>;
             doneColumn = \<lparr>c_id = c3, c_title = ''Done'', c_order = 2, taskIds = []\<rparr>
         in b\<lparr>columns := [todoColumn, inProgressColumn, doneColumn],
              columnOrder := [c_id todoColumn, c_id inProgressColumn, c_id doneColumn]\<rparr>)
      else b)"

section \<open>Access control\<close>

text \<open>\<open>project.members.some(member => member.user.toString() === req.user.id)\<close>\<close>

definition isMember :: "oid \<Rightarrow> project \<Rightarrow> bool" where
  "isMember uid p = list_ex (\<lambda>m. m_user m = uid) (p_members p)"

text \<open>The middleware \<open>canAccessTask\<close>: task, then its board, then the board's project,
  then membership. It only reads.\<close>

definition canAccessTask :: "db \<Rightarrow> oid \<Rightarrow> oid \<Rightarrow> error + (task \<times> board \<times> project)" where
  "canAccessTask s uid tid =
     (case tasks s tid of
        None \<Rightarrow> Inl NotFound
      | Some t \<Rightarrow>
          (case boards s (t_board t) of
             None \<Rightarrow> Inl NotFound
           | Some b \<Rightarrow>
               (case projects s (b_project b) of
                  None \<Rightarrow> Inl NotFound
                | Some p \<Rightarrow> if \<not> isMember uid p then Inl Forbidden else Inr (t, b, p))))"

text \<open>The middleware \<open>canAccessBoard\<close>.\<close>

definition canAccessBoard :: "db \<Rightarrow> oid \<Rightarrow> oid \<Rightarrow> error + (board \<times> project)" where
  "canAccessBoard s uid bid =
     (case boards s bid of
        None \<Rightarrow> Inl NotFound
      | Some b \<Rightarrow>
          (case projects s (b_project b) of
             None \<Rightarrow> Inl NotFound
           | Some p \<Rightarrow> if \<not> isMember uid p then Inl Forbidden else Inr (b, p)))"

text \<open>A route \<open>[authenticate, canAccessTask], handler\<close>: Express runs the handler only
  when the middleware called \<open>next()\<close>; otherwise the middleware's reply is the route's
  reply and nothing was written. The requester \<open>uid\<close> is the authenticated user.\<close>

definition withTask ::
  "db \<Rightarrow> oid \<Rightarrow> oid \<Rightarrow> (task \<times> board \<times> project \<Rightarrow> reply \<times> db) \<Rightarrow> reply \<times> db" where
  "withTask s uid tid handler =
     (case canAccessTask s uid tid of Inl e \<Rightarrow> (Err e, s) | Inr ctx \<Rightarrow> handler ctx)"

definition withBoard ::
  "db \<Rightarrow> oid \<Rightarrow> oid \<Rightarrow> (board \<times> project \<Rightarrow> reply \<times> db) \<Rightarrow> reply \<times> db" where
  "withBoard s uid bid handler =
     (case canAccessBoard s uid bid of Inl e \<Rightarrow> (Err e, s) | Inr ctx \<Rightarrow> handler ctx)"

text \<open>The middleware \<open>isAdminOrOwner\<close> of the project routes.\<close>

definition isAdminOrOwner :: "db \<Rightarrow> oid \<Rightarrow> oid \<Rightarrow> error + project" where
  "isAdminOrOwner s uid pid =
     (case projects s pid of
        None \<Rightarrow> Inl NotFound
      | Some p \<Rightarrow>
          (case find (\<lambda>m. m_user m = uid) (p_members p) of
             None \<Rightarrow> Inl Forbidden
           | Some m \<Rightarrow>
               if m_role m \<noteq> Admin \<and> m_role m \<noteq> Owner then Inl Forbidden else Inr p))"

section \<open>Task routes\<close>

text \<open>Both \<open>DELETE /api/tasks/:id\<close> and \<open>PUT /api/tasks/:id/move\<close> take the task out of
  its current column with the same lines: find the column whose id is \<open>task.column\<close>, find
  the task's id in that column's \<open>taskIds\<close>, and \<open>splice(taskIndex, 1)\<close>. \<open>None\<close> is
  returned when nothing was found and the column list is untouched.\<close>

definition removeTaskId :: "column list \<Rightarrow> oid \<Rightarrow> oid \<Rightarrow> column list option" where
  "removeTaskId cols columnId tid =
     (case findIndex (\<lambda>c. c_id c = columnId) cols of
        None \<Rightarrow> None
      | Some columnIndex \<Rightarrow>
          (case findIndex (\<lambda>taskId. taskId = tid) (taskIds (cols ! columnIndex)) of
             None \<Rightarrow> None
           | Some taskIndex \<Rightarrow>
               Some (cols[columnIndex := (cols ! columnIndex)
                       \<lparr>taskIds := array_splice (taskIds (cols ! columnIndex)) (int taskIndex) 1 []\<rparr>])))"


text \<open>\<open>GET /api/tasks/:id\<close>\<close>

definition getTask :: "db \<Rightarrow> oid \<Rightarrow> oid \<Rightarrow> reply \<times> db" where
  "getTask s uid tid = withTask s uid tid (\<lambda>(t, b, p). (Ok, s))"

text \<open>\<open>DELETE /api/tasks/:id\<close>: the board is saved only when the id was found in the
  task's column; the task document is deleted in either case.\<close>

definition deleteTask :: "db \<Rightarrow> oid \<Rightarrow> oid \<Rightarrow> reply \<times> db" where
  "deleteTask s uid tid = withTask s uid tid (\<lambda>(t, b, p).
     (Ok, s\<lparr>boards := (case removeTaskId (columns b) (t_column t) tid of
                          None \<Rightarrow> boards s
                        | Some cols \<Rightarrow> (boards s)(t_board t \<mapsto> b\<lparr>columns := cols\<rparr>)),
             tasks := (tasks s)(tid := None),
             activities := activities s @
               [\<lparr>a_user = uid, a_action = ''deleted'', a_entityType = ''task'',
                 a_entityId = tid, a_projectId = b_project b,
                 a_boardId = Some (t_board t)\<rparr>]\<rparr>))"

text \<open>\<open>PUT /api/tasks/:id/move\<close> with body \<open>{columnId, order}\<close>, where \<open>order\<close> is
  an integer literal \<open>n\<close>; the handler sees the double \<open>jsonNumber n\<close>. After
  \<open>canAccessTask\<close> the validators run: the request is answered 400 when \<open>order\<close> is not
  numeric (the validator on \<open>columnId\<close> holds of every well-formed id). The handler
  receives no source column and no source index: the source is the task's own \<open>column\<close>
  field. The double is what \<open>splice\<close> gets as its start and what is stored as the
  task's \<open>order\<close>.\<close>

definition moveTask :: "db \<Rightarrow> oid \<Rightarrow> oid \<Rightarrow> oid \<Rightarrow> int \<Rightarrow> reply \<times> db" where
  "moveTask s uid tid columnId n = withTask s uid tid (\<lambda>(t, b, p).
     (let ord = jsonNumber n in
      if \<not> isNumeric ord then (Err ValidationError, s)
      else case findIndex (\<lambda>c. c_id c = columnId) (columns b) of
        None \<Rightarrow> (Err NotFound, s)
      | Some targetColumnIndex \<Rightarrow>
          (let cols = (case removeTaskId (columns b) (t_column t) tid of
                         None \<Rightarrow> columns b
                       | Some cols' \<Rightarrow> cols');
               targetTaskIds = taskIds (cols ! targetColumnIndex);
               cols2 = cols[targetColumnIndex := (cols ! targetColumnIndex)
                         \<lparr>taskIds := array_splice targetTaskIds ord 0 [tid]\<rparr>]
           in (Ok, s\<lparr>boards := (boards s)(t_board t \<mapsto> b\<lparr>columns := cols2\<rparr>),
                     tasks := (tasks s)(tid \<mapsto> t\<lparr>t_column := columnId, t_order := ord\<rparr>),
                     activities := activities s @
                       [\<lparr>a_user = uid, a_action = ''moved'', a_entityType = ''task'',
                         a_entityId = tid, a_projectId = b_project b,
                         a_boardId = Some (t_board t)\<rparr>]\<rparr>))))"

section \<open>Board routes\<close>

text \<open>\<open>POST /api/boards/:id/columns\<close>; \<open>cid\<close> is the \<open>new ObjectId()\<close> of the
  column. Access is checked before the title validator runs; a title of white space only
  passes the validator and fails the save.\<close>

definition createColumn :: "db \<Rightarrow> oid \<Rightarrow> oid \<Rightarrow> oid \<Rightarrow> string \<Rightarrow> reply \<times> db" where
  "createColumn s uid bid cid title = withBoard s uid bid (\<lambda>(b, p).
     if title = [] then (Err ValidationError, s)
     else if trim title = [] then (Err ServerError, s)
     else
       (let newColumn = \<lparr>c_id = cid, c_title = trim title, c_order = length (columns b),
                          taskIds = []\<rparr>
        in (Ok, s\<lparr>boards := (boards s)(bid \<mapsto>
                      b\<lparr>columns := columns b @ [newColumn],
                        columnOrder := columnOrder b @ [c_id newColumn]\<rparr>),
                  activities := activities s @
                    [\<lparr>a_user = uid, a_action = ''created'', a_entityType = ''column'',
                      a_entityId = cid, a_projectId = b_project b, a_boardId = Some bid\<rparr>]\<rparr>)))"

text \<open>\<open>DELETE /api/boards/:id/columns/:columnId\<close>\<close>

definition deleteColumn :: "db \<Rightarrow> oid \<Rightarrow> oid \<Rightarrow> oid \<Rightarrow> reply \<times> db" where
  "deleteColumn s uid bid columnId = withBoard s uid bid (\<lambda>(b, p).
     case findIndex (\<lambda>c. c_id c = columnId) (columns b) of
       None \<Rightarrow> (Err NotFound, s)
     | Some columnIndex \<Rightarrow>
         (let tids = taskIds (columns b ! columnIndex);
              tasks' = (if length tids > 0 then deleteIds tids (tasks s) else tasks s);
              columns' = array_splice (columns b) (int columnIndex) 1 [];
              columnOrder' = (case findIndex (\<lambda>i. i = columnId) (columnOrder b) of
                                None \<Rightarrow> columnOrder b
                              | Some orderIndex \<Rightarrow> array_splice (columnOrder b) (int orderIndex) 1 [])
          in (Ok, s\<lparr>tasks := tasks',
                    boards := (boards s)(bid \<mapsto>
                      b\<lparr>columns := columns', columnOrder := columnOrder'\<rparr>),
                    activities := activities s @
                      [\<lparr>a_user = uid, a_action = ''deleted'', a_entityType = ''column'',
                        a_entityId = columnId, a_projectId = b_project b,
                        a_boardId = Some bid\<rparr>]\<rparr>)))"

text \<open>A path segment as a route parameter: the hexadecimal string of an ObjectId, or any
  other text. The column routes compare it with \<open>column._id.toString()\<close>, which no other
  text equals.\<close>

datatype pathParam = IdParam oid | TextParam string

text \<open>\<open>PUT /api/boards/:id/columns/:columnId\<close> with an optional \<open>title\<close> in the body
  (\<open>None\<close> when the body has none). The validator skips an absent title and rejects an
  empty one; the handler then looks the column up and assigns the title, and saving a
  column whose title is absent or blank fails.\<close>

definition updateColumn :: "db \<Rightarrow> oid \<Rightarrow> oid \<Rightarrow> pathParam \<Rightarrow> string option \<Rightarrow> reply \<times> db" where
  "updateColumn s uid bid columnId title = withBoard s uid bid (\<lambda>(b, p).
     if title = Some [] then (Err ValidationError, s)
     else case findIndex (\<lambda>c. IdParam (c_id c) = columnId) (columns b) of
       None \<Rightarrow> (Err NotFound, s)
     | Some columnIndex \<Rightarrow>
         (case title of
            None \<Rightarrow> (Err ServerError, s)
          | Some ttl \<Rightarrow>
              if trim ttl = [] then (Err ServerError, s)
              else (Ok, s\<lparr>boards := (boards s)(bid \<mapsto>
                             b\<lparr>columns := (columns b)
                                 [columnIndex := (columns b ! columnIndex)\<lparr>c_title := trim ttl\<rparr>]\<rparr>),
                           activities := activities s @
                             [\<lparr>a_user = uid, a_action = ''updated'', a_entityType = ''column'',
                               a_entityId = c_id (columns b ! columnIndex),
                               a_projectId = b_project b, a_boardId = Some bid\<rparr>]\<rparr>)))"

text \<open>\<open>PUT /api/boards/:id/columns/reorder\<close> with body \<open>{columnOrder}\<close>, as the client's
  \<open>reorderColumns\<close> sends it. The router holds its layers in the order of registration,
  and \<open>router.put('/:id/columns/:columnId', ...)\<close> is registered before
  \<open>router.put('/:id/columns/reorder', ...)\<close>: the request matches the earlier path with
  \<open>columnId = 'reorder'\<close>, and that route always answers without calling \<open>next()\<close>. The
  handler registered for the reorder path is never run; the array in the body is read by no
  one.\<close>

definition reorderColumns :: "db \<Rightarrow> oid \<Rightarrow> oid \<Rightarrow> oid list \<Rightarrow> reply \<times> db" where
  "reorderColumns s uid bid newOrder = updateColumn s uid bid (TextParam ''reorder'') None"

text \<open>\<open>DELETE /api/boards/:id\<close>: admins and owners only; the board's tasks go with it.\<close>

definition deleteBoard :: "db \<Rightarrow> oid \<Rightarrow> oid \<Rightarrow> reply \<times> db" where
  "deleteBoard s uid bid = withBoard s uid bid (\<lambda>(b, p).
     case find (\<lambda>m. m_user m = uid) (p_members p) of
       None \<Rightarrow> (Err Forbidden, s)
     | Some m \<Rightarrow>
         if m_role m \<noteq> Admin \<and> m_role m \<noteq> Owner then (Err Forbidden, s)
         else (Ok, s\<lparr>boards := (boards s)(bid := None),
                      tasks := deleteMany (\<lambda>t. t_board t = bid) (tasks s),
                      activities := activities s @
                        [\<lparr>a_user = uid, a_action = ''deleted'', a_entityType = ''board'',
                          a_entityId = bid, a_projectId = b_project b,
                          a_boardId = None\<rparr>]\<rparr>))"

section \<open>Project routes\<close>

text \<open>\<open>POST /api/projects\<close>: the project is saved, then a board titled Main Board, whose
  pre-save hook fills in the default columns. \<open>pid\<close>, \<open>bid\<close>, \<open>c1\<close>, \<open>c2\<close>, \<open>c3\<close> are
  the generated ObjectIds. A failing save answers 500 and leaves what was saved before.\<close>

definition createProject ::
  "db \<Rightarrow> oid \<Rightarrow> oid \<Rightarrow> oid \<Rightarrow> oid \<Rightarrow> oid \<Rightarrow> oid \<Rightarrow> string \<Rightarrow> string \<Rightarrow> reply \<times> db" where
  "createProject s uid pid bid c1 c2 c3 name description =
     (if name = [] then (Err ValidationError, s)
      else if trim name = [] \<or> projects s pid \<noteq> None then (Err ServerError, s)
      else
        (let p = project_pre_save
                   \<lparr>p_name = trim name, p_description = trim description, p_owner = uid,
                    p_members = []\<rparr>;
             s1 = s\<lparr>projects := (projects s)(pid \<mapsto> p)\<rparr>
         in if boards s1 bid \<noteq> None then (Err ServerError, s1)
            else
              (let b = board_pre_save True c1 c2 c3
                         \<lparr>b_title = ''Main Board'',
                          b_description = ''Default board for the project'',
                          b_project = pid, columns = [], columnOrder = []\<rparr>
               in (Ok, s1\<lparr>boards := (boards s1)(bid \<mapsto> b),
                          activities := activities s1 @
                            [\<lparr>a_user = uid, a_action = ''created'', a_entityType = ''project'',
                              a_entityId = pid, a_projectId = pid, a_boardId = None\<rparr>]\<rparr>))))"

text \<open>\<open>DELETE /api/projects/:id\<close>: behind \<open>isAdminOrOwner\<close>, and the owner only.\<close>

definition deleteProject :: "db \<Rightarrow> oid \<Rightarrow> oid \<Rightarrow> reply \<times> db" where
  "deleteProject s uid pid =
     (case isAdminOrOwner s uid pid of
        Inl e \<Rightarrow> (Err e, s)
      | Inr p \<Rightarrow>
          if p_owner p \<noteq> uid then (Err Forbidden, s)
          else (Ok, s\<lparr>projects := (projects s)(pid := None),
                       boards := deleteMany (\<lambda>b. b_project b = pid) (boards s),
                       activities := filter (\<lambda>a. a_projectId a \<noteq> pid) (activities s),
                       notifications :=
                         filter (\<lambda>n. n_projectId n \<noteq> Some pid) (notifications s)\<rparr>))"

section \<open>The client's board store\<close>

text \<open>The part of the store's state that \<open>moveTask\<close> reads and writes before it calls
  the server: the mirror of the board (\<open>null\<close> until a board is fetched) and the tasks of
  that board, each with its \<open>_id\<close>.\<close>

record store =
  currentBoard :: "board option"
  storeTasks :: "(oid \<times> task) list"

text \<open>\<open>moveTask\<close> of the client's board store, up to its call of the server. It returns
  at once when \<open>state.tasks.find(t => t._id === taskId)\<close> finds nothing. Otherwise it
  updates the mirror: when both columns are found, \<open>splice(sourceIndex, 1)\<close> on a copy of
  the source column's \<open>taskIds\<close>, then \<open>splice(destinationIndex, 0, taskId)\<close> on a copy
  of the destination's. Without a current board the update throws on \<open>columns\<close> and the
  mirror stays as it is.\<close>

definition store_moveTask :: "store \<Rightarrow> oid \<Rightarrow> oid \<Rightarrow> oid \<Rightarrow> int \<Rightarrow> int \<Rightarrow> store" where
  "store_moveTask state taskId sourceColumnId destinationColumnId sourceIndex destinationIndex =
     (case find (\<lambda>(i, t). i = taskId) (storeTasks state) of
        None \<Rightarrow> state
      | Some task \<Rightarrow>
          (case currentBoard state of
             None \<Rightarrow> state
           | Some updatedBoard \<Rightarrow>
               (case (findIndex (\<lambda>col. c_id col = sourceColumnId) (columns updatedBoard),
                      findIndex (\<lambda>col. c_id col = destinationColumnId) (columns updatedBoard)) of
                  (Some sourceColumnIndex, Some destinationColumnIndex) \<Rightarrow>
                    (let cols = columns updatedBoard;
                         cols1 = cols[sourceColumnIndex := (cols ! sourceColumnIndex)
                                   \<lparr>taskIds := array_splice (taskIds (cols ! sourceColumnIndex))
                                                 sourceIndex 1 []\<rparr>];
                         cols2 = cols1[destinationColumnIndex := (cols1 ! destinationColumnIndex)
                                   \<lparr>taskIds := array_splice (taskIds (cols1 ! destinationColumnIndex))
                                                 destinationIndex 0 [taskId]\<rparr>]
                     in state\<lparr>currentBoard := Some (updatedBoard\<lparr>columns := cols2\<rparr>)\<rparr>)
                | _ \<Rightarrow> state)))"

section \<open>Notions used to state the properties\<close>

text \<open>The spec's reading of an insertion index: clamped to the range from 0 to the length
  of the list.\<close>

definition clampIndex :: "int \<Rightarrow> nat \<Rightarrow> nat" where
  "clampIndex i n = nat (max 0 (min i (int n)))"

text \<open>A task's id is listed once at most, and only in the task's own column: the first
  column of the board whose id is the task's \<open>column\<close> field.\<close>

definition taskListedOnce :: "board \<Rightarrow> task \<Rightarrow> oid \<Rightarrow> bool" where
  "taskListedOnce b t tid =
     (\<forall>i < length (columns b).
        count_list (taskIds (columns b ! i)) tid \<le>
          (if findIndex (\<lambda>c. c_id c = t_column t) (columns b) = Some i then 1 else 0))"

text \<open>\<open>columnOrder\<close> is a permutation of the board's column ids; a board is in order when,
  besides, no two of its columns share an id.\<close>

definition isPermutationOfColumns :: "board \<Rightarrow> bool" where
  "isPermutationOfColumns b =
     (distinct (columnOrder b) \<and> set (columnOrder b) = c_id ` set (columns b))"

definition boardOk :: "board \<Rightarrow> bool" where
  "boardOk b = (distinct (map c_id (columns b)) \<and> isPermutationOfColumns b)"

text \<open>Sequences of column requests. The ObjectId generated for a new column is fresh:
  it is not yet a column id of the board.\<close>

datatype column_op =
    CreateColumn oid oid oid string
  | DeleteColumn oid oid oid
  | ReorderColumns oid oid "oid list"

fun applyColumnOp :: "db \<Rightarrow> column_op \<Rightarrow> db" where
  "applyColumnOp s (CreateColumn uid bid cid title) = snd (createColumn s uid bid cid title)"
| "applyColumnOp s (DeleteColumn uid bid columnId) = snd (deleteColumn s uid bid columnId)"
| "applyColumnOp s (ReorderColumns uid bid newOrder) = snd (reorderColumns s uid bid newOrder)"

fun freshColumnId :: "db \<Rightarrow> column_op \<Rightarrow> bool" where
  "freshColumnId s (CreateColumn uid bid cid title) =
     (case boards s bid of None \<Rightarrow> True | Some b \<Rightarrow> cid \<notin> c_id ` set (columns b))"
| "freshColumnId s _ = True"

fun runColumnOps :: "db \<Rightarrow> column_op list \<Rightarrow> db" where
  "runColumnOps s [] = s"
| "runColumnOps s (x # xs) = runColumnOps (applyColumnOp s x) xs"

fun freshColumnIds :: "db \<Rightarrow> column_op list \<Rightarrow> bool" where
  "freshColumnIds s [] = True"
| "freshColumnIds s (x # xs) = (freshColumnId s x \<and> freshColumnIds (applyColumnOp s x) xs)"








section \<open>Example data\<close>

text \<open>An empty database, and one with a project (owner 5, member 6), its board with three
  columns and three tasks. They serve as concrete inputs.\<close>

definition db_empty :: db where
  "db_empty = \<lparr>projects = Map.empty, boards = Map.empty, tasks = Map.empty,
     activities = [], notifications = []\<rparr>"

definition ex_project :: project where
  "ex_project = \<lparr>p_name = ''Eng'', p_description = [], p_owner = 5,
     p_members = [\<lparr>m_user = 5, m_role = Owner\<rparr>, \<lparr>m_user = 6, m_role = Member\<rparr>]\<rparr>"

definition ex_board :: board where
  "ex_board = \<lparr>b_title = ''Main Board'', b_description = ''Default board for the project'',
     b_project = 10,
     columns = [\<lparr>c_id = 31, c_title = ''To Do'', c_order = 0, taskIds = [41, 42]\<rparr>,
                \<lparr>c_id = 32, c_title = ''In Progress'', c_order = 1, taskIds = []\<rparr>,
                \<lparr>c_id = 33, c_title = ''Done'', c_order = 2, taskIds = [43]\<rparr>],
     columnOrder = [31, 32, 33]\<rparr>"

definition ex_task :: "oid \<Rightarrow> int \<Rightarrow> task" where
  "ex_task columnId ord = \<lparr>t_title = ''Fix bug'', t_description = [], t_board = 20,
     t_column = columnId, t_order = ord, t_assignedTo = [], t_createdBy = 5\<rparr>"

definition ex_db :: db where
  "ex_db = \<lparr>projects = [10 \<mapsto> ex_project], boards = [20 \<mapsto> ex_board],
     tasks = [41 \<mapsto> ex_task 31 0, 42 \<mapsto> ex_task 31 1, 43 \<mapsto> ex_task 33 0],
     activities = [\<lparr>a_user = 5, a_action = ''created'', a_entityType = ''project'',
                    a_entityId = 10, a_projectId = 10, a_boardId = None\<rparr>],
     notifications = [\<lparr>n_recipient = 6, n_sender = 5, n_type = ''project_invitation'',
                       n_entityType = ''project'', n_entityId = 10, n_projectId = Some 10\<rparr>]\<rparr>"

text \<open>The store of a client that has fetched the example board.\<close>

definition ex_store :: store where
  "ex_store = \<lparr>currentBoard = Some ex_board,
     storeTasks = [(41, ex_task 31 0), (42, ex_task 31 1), (43, ex_task 33 0)]\<rparr>"

text \<open>The database after user 5 created the project Eng on the empty database, and three
  task requests on its board: two tasks created in the first column, then the first of them
  moved to the third column.\<close>

definition db_started :: db where
  "db_started = snd (createProject db_empty 5 10 20 31 32 33 ''Eng'' [])"



section \<open>Facts about the primitives and the middleware\<close>

lemmas ex_defs = ex_db_def ex_board_def ex_project_def ex_task_def

lemma trim_Nil: "trim [] = []"
  by (simp add: trim_def)

lemma findIndex_None_iff: "findIndex P xs = None \<longleftrightarrow> (\<forall>x\<in>set xs. \<not> P x)"
  by (induction xs) auto

lemma findIndex_eq_None_remove1:
  "findIndex (\<lambda>x. x = a) xs = None \<Longrightarrow> remove1 a xs = xs"
  by (induction xs) (auto split: if_splits)



lemma canAccessTask_Inr_iff:
  "canAccessTask s uid tid = Inr (t, b, p) \<longleftrightarrow>
     tasks s tid = Some t \<and> boards s (t_board t) = Some b \<and>
     projects s (b_project b) = Some p \<and> isMember uid p"
  by (auto simp: canAccessTask_def split: option.splits)

lemma canAccessBoard_Inr_iff:
  "canAccessBoard s uid bid = Inr (b, p) \<longleftrightarrow>
     boards s bid = Some b \<and> projects s (b_project b) = Some p \<and> isMember uid p"
  by (auto simp: canAccessBoard_def split: option.splits)

lemma withTask_Inl: "canAccessTask s uid tid = Inl e \<Longrightarrow> withTask s uid tid h = (Err e, s)"
  by (simp add: withTask_def)

lemma withTask_Inr: "canAccessTask s uid tid = Inr ctx \<Longrightarrow> withTask s uid tid h = h ctx"
  by (simp add: withTask_def)

lemma withBoard_Inl: "canAccessBoard s uid bid = Inl e \<Longrightarrow> withBoard s uid bid h = (Err e, s)"
  by (simp add: withBoard_def)

lemma withBoard_Inr: "canAccessBoard s uid bid = Inr ctx \<Longrightarrow> withBoard s uid bid h = h ctx"
  by (simp add: withBoard_def)

lemma db_started_eval:
  "boards db_started = [20 \<mapsto> \<lparr>b_title = ''Main Board'',
       b_description = ''Default board for the project'', b_project = 10,
       columns = [\<lparr>c_id = 31, c_title = ''To Do'', c_order = 0, taskIds = []\<rparr>,
                  \<lparr>c_id = 32, c_title = ''In Progress'', c_order = 1, taskIds = []\<rparr>,
                  \<lparr>c_id = 33, c_title = ''Done'', c_order = 2, taskIds = []\<rparr>],
       columnOrder = [31, 32, 33]\<rparr>]"
  "tasks db_started = Map.empty"
  "projects db_started = [10 \<mapsto> \<lparr>p_name = ''Eng'', p_description = [], p_owner = 5,
       p_members = [\<lparr>m_user = 5, m_role = Owner\<rparr>]\<rparr>]"
  by (simp_all add: db_started_def db_empty_def createProject_def board_pre_save_def
      project_pre_save_def trim_def isSpace_def Let_def)

section \<open>Project creation\<close>

text \<open>
  Claim C8. \<open>POST /api/projects\<close> succeeds exactly when the trimmed name is not empty and
  the generated project and board ids are unused. When it succeeds, the board it saves has
  exactly the three columns To Do, In Progress, Done, in that order, each with an empty
  \<open>taskIds\<close>, and \<open>columnOrder\<close> lists the three column ids in the same order. Whatever
  the outcome, a board that the call wrote has three columns, never none.
\<close>

theorem createProject_default_board:
  "(fst (createProject s uid pid bid c1 c2 c3 name description) = Ok \<longleftrightarrow>
      trim name \<noteq> [] \<and> projects s pid = None \<and> boards s bid = None) \<and>
   (fst (createProject s uid pid bid c1 c2 c3 name description) = Ok \<longrightarrow>
      boards (snd (createProject s uid pid bid c1 c2 c3 name description)) bid =
        Some \<lparr>b_title = ''Main Board'', b_description = ''Default board for the project'',
              b_project = pid,
              columns = [\<lparr>c_id = c1, c_title = ''To Do'', c_order = 0, taskIds = []\<rparr>,
                         \<lparr>c_id = c2, c_title = ''In Progress'', c_order = 1, taskIds = []\<rparr>,
                         \<lparr>c_id = c3, c_title = ''Done'', c_order = 2, taskIds = []\<rparr>],
              columnOrder = [c1, c2, c3]\<rparr>) \<and>
   (\<forall>k b. boards (snd (createProject s uid pid bid c1 c2 c3 name description)) k = Some b \<and>
          boards s k \<noteq> Some b \<longrightarrow> k = bid \<and> length (columns b) = 3)"
  by (auto simp: createProject_def board_pre_save_def Let_def trim_Nil split: if_splits)

theorem createProject_default_board_witness:
  "fst (createProject db_empty 1 10 20 31 32 33 ''Eng'' '''') = Ok \<and>
   map c_title (columns (the (boards (snd (createProject db_empty 1 10 20 31 32 33 ''Eng'' '''')) 20)))
     = [''To Do'', ''In Progress'', ''Done'']"
  using createProject_default_board [of db_empty 1 10 20 31 32 33 "''Eng''" "''''"]
  by (simp add: db_empty_def trim_def isSpace_def)

section \<open>Access control\<close>

text \<open>
  Claim C9. \<open>canAccessTask\<close> answers NotFound exactly when the task, its board or the
  board's project is missing, and Forbidden exactly when all three are found and the
  requester is not among the project's members; \<open>canAccessBoard\<close> does the same for the chain
  from the board. These are its only failures, and every route behind either middleware then
  answers with that error and leaves the database as it was.
\<close>

theorem access_check_fails:
  "(canAccessTask s uid tid = Inl NotFound \<longleftrightarrow>
      tasks s tid = None \<or>
      (\<exists>t. tasks s tid = Some t \<and>
           (boards s (t_board t) = None \<or>
            (\<exists>b. boards s (t_board t) = Some b \<and> projects s (b_project b) = None)))) \<and>
   (canAccessTask s uid tid = Inl Forbidden \<longleftrightarrow>
      (\<exists>t b p. tasks s tid = Some t \<and> boards s (t_board t) = Some b \<and>
           projects s (b_project b) = Some p \<and> \<not> isMember uid p)) \<and>
   (canAccessBoard s uid bid = Inl NotFound \<longleftrightarrow>
      boards s bid = None \<or>
      (\<exists>b. boards s bid = Some b \<and> projects s (b_project b) = None)) \<and>
   (canAccessBoard s uid bid = Inl Forbidden \<longleftrightarrow>
      (\<exists>b p. boards s bid = Some b \<and> projects s (b_project b) = Some p \<and> \<not> isMember uid p)) \<and>
   (\<forall>e. canAccessTask s uid tid = Inl e \<longrightarrow>
      (e = NotFound \<or> e = Forbidden) \<and>
      withTask s uid tid handler = (Err e, s) \<and>
      getTask s uid tid = (Err e, s) \<and>
      deleteTask s uid tid = (Err e, s) \<and>
      moveTask s uid tid columnId ord = (Err e, s)) \<and>
   (\<forall>e. canAccessBoard s uid bid = Inl e \<longrightarrow>
      (e = NotFound \<or> e = Forbidden) \<and>
      withBoard s uid bid handler' = (Err e, s) \<and>
      createColumn s uid bid cid title = (Err e, s) \<and>
      deleteColumn s uid bid columnId = (Err e, s) \<and>
      reorderColumns s uid bid newOrder = (Err e, s) \<and>
      deleteBoard s uid bid = (Err e, s))"
proof (intro conjI allI impI)
  show "canAccessTask s uid tid = Inl NotFound \<longleftrightarrow>
      tasks s tid = None \<or>
      (\<exists>t. tasks s tid = Some t \<and>
           (boards s (t_board t) = None \<or>
            (\<exists>b. boards s (t_board t) = Some b \<and> projects s (b_project b) = None)))"
    by (auto simp: canAccessTask_def split: option.splits)
  show "canAccessTask s uid tid = Inl Forbidden \<longleftrightarrow>
      (\<exists>t b p. tasks s tid = Some t \<and> boards s (t_board t) = Some b \<and>
           projects s (b_project b) = Some p \<and> \<not> isMember uid p)"
    by (auto simp: canAccessTask_def split: option.splits)
  show "canAccessBoard s uid bid = Inl NotFound \<longleftrightarrow>
      boards s bid = None \<or>
      (\<exists>b. boards s bid = Some b \<and> projects s (b_project b) = None)"
    by (auto simp: canAccessBoard_def split: option.splits)
  show "canAccessBoard s uid bid = Inl Forbidden \<longleftrightarrow>
      (\<exists>b p. boards s bid = Some b \<and> projects s (b_project b) = Some p \<and> \<not> isMember uid p)"
    by (auto simp: canAccessBoard_def split: option.splits)
next
  fix e assume e: "canAccessTask s uid tid = Inl e"
  then show "e = NotFound \<or> e = Forbidden"
    by (auto simp: canAccessTask_def split: option.splits if_splits)
  from e show "withTask s uid tid handler = (Err e, s)" by (rule withTask_Inl)
  from e show "getTask s uid tid = (Err e, s)" by (simp add: getTask_def withTask_Inl)
  from e show "deleteTask s uid tid = (Err e, s)" by (simp add: deleteTask_def withTask_Inl)
  from e show "moveTask s uid tid columnId ord = (Err e, s)"
    by (simp add: moveTask_def withTask_Inl)
next
  fix e assume e: "canAccessBoard s uid bid = Inl e"
  then show "e = NotFound \<or> e = Forbidden"
    by (auto simp: canAccessBoard_def split: option.splits if_splits)
  from e show "withBoard s uid bid handler' = (Err e, s)" by (rule withBoard_Inl)
  from e show "createColumn s uid bid cid title = (Err e, s)"
    by (simp add: createColumn_def withBoard_Inl)
  from e show "deleteColumn s uid bid columnId = (Err e, s)"
    by (simp add: deleteColumn_def withBoard_Inl)
  from e show "reorderColumns s uid bid newOrder = (Err e, s)"
    by (simp add: reorderColumns_def updateColumn_def withBoard_Inl)
  from e show "deleteBoard s uid bid = (Err e, s)"
    by (simp add: deleteBoard_def withBoard_Inl)
qed

theorem access_check_fails_witness:
  "canAccessTask ex_db 7 41 = Inl Forbidden \<and> moveTask ex_db 7 41 33 0 = (Err Forbidden, ex_db) \<and>
   canAccessTask ex_db 5 99 = Inl NotFound \<and> deleteTask ex_db 5 99 = (Err NotFound, ex_db) \<and>
   canAccessBoard ex_db 7 20 = Inl Forbidden \<and>
   deleteColumn ex_db 7 20 31 = (Err Forbidden, ex_db) \<and>
   canAccessBoard ex_db 5 21 = Inl NotFound \<and>
   reorderColumns ex_db 5 21 [33, 32, 31] = (Err NotFound, ex_db)"
proof -
  have a: "canAccessTask ex_db 7 41 = Inl Forbidden"
    by (simp add: canAccessTask_def isMember_def ex_defs)
  have b: "canAccessTask ex_db 5 99 = Inl NotFound"
    by (simp add: canAccessTask_def ex_defs)
  have c: "canAccessBoard ex_db 7 20 = Inl Forbidden"
    by (simp add: canAccessBoard_def isMember_def ex_defs)
  have d: "canAccessBoard ex_db 5 21 = Inl NotFound"
    by (simp add: canAccessBoard_def ex_defs)
  note T1 = access_check_fails [where s = ex_db and uid = 7 and tid = 41 and bid = 20
      and columnId = 33 and ord = 0]
  note T2 = access_check_fails [where s = ex_db and uid = 7 and tid = 41 and bid = 20
      and columnId = 31]
  note T3 = access_check_fails [where s = ex_db and uid = 5 and tid = 99 and bid = 21
      and newOrder = "[33, 32, 31]"]
  from a T1 have 1: "moveTask ex_db 7 41 33 0 = (Err Forbidden, ex_db)" by blast
  from b T3 have 2: "deleteTask ex_db 5 99 = (Err NotFound, ex_db)" by blast
  from c T2 have 3: "deleteColumn ex_db 7 20 31 = (Err Forbidden, ex_db)" by blast
  from d T3 have 4: "reorderColumns ex_db 5 21 [33, 32, 31] = (Err NotFound, ex_db)" by blast
  from a b c d 1 2 3 4 show ?thesis by simp
qed

section \<open>Facts about splicing and finding\<close>

lemma splice_delete_one:
  "k < length xs \<Longrightarrow> array_splice xs (int k) (Suc 0) [] = take k xs @ drop (Suc k) xs"
  by (simp add: array_splice_def spliceStart_def Let_def min_def)

lemma splice_insert:
  "array_splice xs ord 0 [a] =
     take (spliceStart (length xs) ord) xs @ a # drop (spliceStart (length xs) ord) xs"
  by (simp add: array_splice_def Let_def)

lemma findIndex_Some_less: "findIndex P xs = Some i \<Longrightarrow> i < length xs"
  by (induction xs arbitrary: i) (auto split: if_splits)


lemma findIndex_Some_ex: "(\<exists>i. findIndex P xs = Some i) \<longleftrightarrow> (\<exists>x\<in>set xs. P x)"
  using findIndex_None_iff [of P xs] by (cases "findIndex P xs") auto

lemma findIndex_eq_remove1:
  "findIndex (\<lambda>x. x = a) xs = Some k \<Longrightarrow> take k xs @ drop (Suc k) xs = remove1 a xs"
proof (induction xs arbitrary: k)
  case Nil
  then show ?case by simp
next
  case (Cons x xs)
  then show ?case by (cases k) (auto split: if_splits)
qed

lemma splice_found_remove1:
  "findIndex (\<lambda>x. x = a) xs = Some k \<Longrightarrow> array_splice xs (int k) (Suc 0) [] = remove1 a xs"
  by (simp add: splice_delete_one findIndex_Some_less findIndex_eq_remove1)

lemma remove_nth_by_id:
  "distinct (map f xs) \<Longrightarrow> findIndex (\<lambda>x. f x = a) xs = Some i \<Longrightarrow>
   take i xs @ drop (Suc i) xs = filter (\<lambda>x. f x \<noteq> a) xs"
proof (induction xs arbitrary: i)
  case Nil
  then show ?case by simp
next
  case (Cons x xs)
  show ?case
  proof (cases "f x = a")
    case True
    from Cons.prems True have i: "i = 0" by simp
    from Cons.prems(1) have "f x \<notin> f ` set xs" by simp
    with True have "\<forall>y\<in>set xs. f y \<noteq> a" by blast
    then have "filter (\<lambda>x. f x \<noteq> a) xs = xs" by simp
    with True i show ?thesis by simp
  next
    case False
    with Cons.prems obtain j where j: "i = Suc j" "findIndex (\<lambda>x. f x = a) xs = Some j"
      by auto
    with Cons.IH[of j] Cons.prems(1) False show ?thesis by simp
  qed
qed

section \<open>Deleting a column\<close>

text \<open>
  Claim C7. For a requester with access to the board, \<open>deleteColumn\<close> answers NotFound and
  changes nothing when no column of the board has the given id. Otherwise it succeeds: the
  column found is taken out of \<open>columns\<close> and the id out of \<open>columnOrder\<close> (so that, the ids
  being distinct, neither mentions it any more), every task whose id was in the column's
  \<open>taskIds\<close> is deleted and no other task is, and \<open>GET /api/tasks/:id\<close> for any of the
  deleted ids answers NotFound.
\<close>

theorem deleteColumn_cascade:
  assumes acc: "canAccessBoard s uid bid = Inr (b, p)"
  shows "(columnId \<notin> c_id ` set (columns b) \<longrightarrow>
            deleteColumn s uid bid columnId = (Err NotFound, s)) \<and>
         (columnId \<in> c_id ` set (columns b) \<longrightarrow>
            fst (deleteColumn s uid bid columnId) = Ok) \<and>
         (\<forall>i. findIndex (\<lambda>c. c_id c = columnId) (columns b) = Some i \<longrightarrow>
            (\<exists>b'. boards (snd (deleteColumn s uid bid columnId)) bid = Some b' \<and>
                 columns b' = take i (columns b) @ drop (Suc i) (columns b) \<and>
                 columnOrder b' = remove1 columnId (columnOrder b) \<and>
                 (distinct (map c_id (columns b)) \<longrightarrow> columnId \<notin> c_id ` set (columns b')) \<and>
                 (distinct (columnOrder b) \<longrightarrow> columnId \<notin> set (columnOrder b'))) \<and>
            (\<forall>tid. tasks (snd (deleteColumn s uid bid columnId)) tid =
                 (if tid \<in> set (taskIds (columns b ! i)) then None else tasks s tid)) \<and>
            (\<forall>tid\<in>set (taskIds (columns b ! i)). \<forall>requester.
                 getTask (snd (deleteColumn s uid bid columnId)) requester tid =
                   (Err NotFound, snd (deleteColumn s uid bid columnId))))"
proof (intro conjI impI allI)
  assume "columnId \<notin> c_id ` set (columns b)"
  then have "findIndex (\<lambda>c. c_id c = columnId) (columns b) = None"
    by (auto simp: findIndex_None_iff)
  with acc show "deleteColumn s uid bid columnId = (Err NotFound, s)"
    by (simp add: deleteColumn_def withBoard_Inr)
next
  assume "columnId \<in> c_id ` set (columns b)"
  then obtain i where "findIndex (\<lambda>c. c_id c = columnId) (columns b) = Some i"
    using findIndex_Some_ex [of "\<lambda>c. c_id c = columnId" "columns b"] by auto
  with acc show "fst (deleteColumn s uid bid columnId) = Ok"
    by (simp add: deleteColumn_def withBoard_Inr Let_def)
next
  fix i assume i: "findIndex (\<lambda>c. c_id c = columnId) (columns b) = Some i"
  let ?s' = "snd (deleteColumn s uid bid columnId)"
  let ?cols = "take i (columns b) @ drop (Suc i) (columns b)"
  let ?b' = "b\<lparr>columns := ?cols, columnOrder := remove1 columnId (columnOrder b)\<rparr>"
  have ord: "(case findIndex (\<lambda>i. i = columnId) (columnOrder b) of
                None \<Rightarrow> columnOrder b
              | Some orderIndex \<Rightarrow> array_splice (columnOrder b) (int orderIndex) 1 []) =
             remove1 columnId (columnOrder b)"
    by (simp add: splice_found_remove1 findIndex_eq_None_remove1 split: option.split)
  have cols: "array_splice (columns b) (int i) (Suc 0) [] = ?cols"
    using i by (simp add: splice_delete_one findIndex_Some_less)
  from acc i have bs: "boards ?s' bid = Some ?b'"
    by (simp add: deleteColumn_def withBoard_Inr Let_def ord cols)
  have d1: "distinct (map c_id (columns b)) \<longrightarrow> columnId \<notin> c_id ` set ?cols"
  proof
    assume "distinct (map c_id (columns b))"
    from remove_nth_by_id [OF this i] show "columnId \<notin> c_id ` set ?cols" by auto
  qed
  have d2: "distinct (columnOrder b) \<longrightarrow> columnId \<notin> set (remove1 columnId (columnOrder b))"
    by simp
  from bs d1 d2
  show "\<exists>b'. boards ?s' bid = Some b' \<and>
                 columns b' = take i (columns b) @ drop (Suc i) (columns b) \<and>
                 columnOrder b' = remove1 columnId (columnOrder b) \<and>
                 (distinct (map c_id (columns b)) \<longrightarrow> columnId \<notin> c_id ` set (columns b')) \<and>
                 (distinct (columnOrder b) \<longrightarrow> columnId \<notin> set (columnOrder b'))"
    by simp
  from acc i show ts: "tasks ?s' tid =
       (if tid \<in> set (taskIds (columns b ! i)) then None else tasks s tid)" for tid
    by (simp add: deleteColumn_def withBoard_Inr Let_def deleteIds_def)
  then show "\<forall>tid\<in>set (taskIds (columns b ! i)). \<forall>requester.
      getTask ?s' requester tid = (Err NotFound, ?s')"
    by (simp add: getTask_def withTask_def canAccessTask_def)
qed

theorem deleteColumn_cascade_witness:
  "fst (deleteColumn ex_db 6 20 31) = Ok \<and>
   map c_id (columns (the (boards (snd (deleteColumn ex_db 6 20 31)) 20))) = [32, 33] \<and>
   columnOrder (the (boards (snd (deleteColumn ex_db 6 20 31)) 20)) = [32, 33] \<and>
   tasks (snd (deleteColumn ex_db 6 20 31)) 41 = None \<and>
   getTask (snd (deleteColumn ex_db 6 20 31)) 5 42 = (Err NotFound, snd (deleteColumn ex_db 6 20 31)) \<and>
   deleteColumn ex_db 6 20 34 = (Err NotFound, ex_db)"
proof -
  have acc: "canAccessBoard ex_db 6 20 = Inr (ex_board, ex_project)"
    by (simp add: canAccessBoard_def isMember_def ex_defs)
  have i: "findIndex (\<lambda>c. c_id c = 31) (columns ex_board) = Some 0"
    by (simp add: ex_defs)
  note T = deleteColumn_cascade [OF acc, of 31]
  note T' = deleteColumn_cascade [OF acc, of 34]
  from T' have nf: "deleteColumn ex_db 6 20 34 = (Err NotFound, ex_db)"
    by (simp add: ex_board_def)
  from T have ok: "fst (deleteColumn ex_db 6 20 31) = Ok"
    by (simp add: ex_board_def)
  from T i obtain b' where b': "boards (snd (deleteColumn ex_db 6 20 31)) 20 = Some b'"
     "columns b' = take 0 (columns ex_board) @ drop (Suc 0) (columns ex_board)"
     "columnOrder b' = remove1 31 (columnOrder ex_board)"
    by blast
  from T i have ts: "tasks (snd (deleteColumn ex_db 6 20 31)) 41 = None"
    by (simp add: ex_board_def)
  from T i have "\<forall>tid\<in>set (taskIds (columns ex_board ! 0)). \<forall>requester.
      getTask (snd (deleteColumn ex_db 6 20 31)) requester tid =
        (Err NotFound, snd (deleteColumn ex_db 6 20 31))"
    by blast
  then have g: "getTask (snd (deleteColumn ex_db 6 20 31)) 5 42 =
      (Err NotFound, snd (deleteColumn ex_db 6 20 31))"
    by (simp add: ex_board_def)
  from ok b' ts g nf show ?thesis by (simp add: ex_board_def)
qed

section \<open>Deleting a project\<close>

text \<open>
  Claim C10. \<open>DELETE /api/projects/:id\<close> never changes the Task collection. It succeeds
  exactly for the project's owner who is listed among the members as admin or owner, and
  then removes the project, every board whose \<open>project\<close> field is the project's id, and
  every activity and notification whose \<open>projectId\<close> is that id; a task of a deleted board
  is still there afterwards, while its board is gone. Only \<open>DELETE /api/boards/:id\<close>
  deletes the tasks of the board it deletes.
\<close>

theorem deleteProject_keeps_tasks:
  "tasks (snd (deleteProject s uid pid)) = tasks s \<and>
   (fst (deleteProject s uid pid) = Ok \<longleftrightarrow>
      (\<exists>p m. projects s pid = Some p \<and> p_owner p = uid \<and>
             find (\<lambda>m. m_user m = uid) (p_members p) = Some m \<and>
             (m_role m = Admin \<or> m_role m = Owner))) \<and>
   (fst (deleteProject s uid pid) = Ok \<longrightarrow>
      projects (snd (deleteProject s uid pid)) = (projects s)(pid := None) \<and>
      (\<forall>k. boards (snd (deleteProject s uid pid)) k =
           (case boards s k of
              None \<Rightarrow> None
            | Some b \<Rightarrow> if b_project b = pid then None else Some b)) \<and>
      activities (snd (deleteProject s uid pid)) =
        filter (\<lambda>a. a_projectId a \<noteq> pid) (activities s) \<and>
      notifications (snd (deleteProject s uid pid)) =
        filter (\<lambda>n. n_projectId n \<noteq> Some pid) (notifications s) \<and>
      (\<forall>tid t b. tasks s tid = Some t \<and> boards s (t_board t) = Some b \<and> b_project b = pid \<longrightarrow>
           boards (snd (deleteProject s uid pid)) (t_board t) = None \<and>
           tasks (snd (deleteProject s uid pid)) tid = Some t)) \<and>
   (fst (deleteBoard s uid bid) = Ok \<longrightarrow>
      boards (snd (deleteBoard s uid bid)) bid = None \<and>
      (\<forall>tid. tasks (snd (deleteBoard s uid bid)) tid =
           (case tasks s tid of
              None \<Rightarrow> None
            | Some t \<Rightarrow> if t_board t = bid then None else Some t)))"
proof (intro conjI)
  show "tasks (snd (deleteProject s uid pid)) = tasks s"
    by (simp add: deleteProject_def split: sum.split)
  show "fst (deleteProject s uid pid) = Ok \<longleftrightarrow>
      (\<exists>p m. projects s pid = Some p \<and> p_owner p = uid \<and>
             find (\<lambda>m. m_user m = uid) (p_members p) = Some m \<and>
             (m_role m = Admin \<or> m_role m = Owner))"
    by (auto simp: deleteProject_def isAdminOrOwner_def split: sum.splits option.splits if_splits)
  show "fst (deleteProject s uid pid) = Ok \<longrightarrow>
      projects (snd (deleteProject s uid pid)) = (projects s)(pid := None) \<and>
      (\<forall>k. boards (snd (deleteProject s uid pid)) k =
           (case boards s k of
              None \<Rightarrow> None
            | Some b \<Rightarrow> if b_project b = pid then None else Some b)) \<and>
      activities (snd (deleteProject s uid pid)) =
        filter (\<lambda>a. a_projectId a \<noteq> pid) (activities s) \<and>
      notifications (snd (deleteProject s uid pid)) =
        filter (\<lambda>n. n_projectId n \<noteq> Some pid) (notifications s) \<and>
      (\<forall>tid t b. tasks s tid = Some t \<and> boards s (t_board t) = Some b \<and> b_project b = pid \<longrightarrow>
           boards (snd (deleteProject s uid pid)) (t_board t) = None \<and>
           tasks (snd (deleteProject s uid pid)) tid = Some t)"
    by (auto simp: deleteProject_def deleteMany_def split: sum.splits if_splits)
  show "fst (deleteBoard s uid bid) = Ok \<longrightarrow>
      boards (snd (deleteBoard s uid bid)) bid = None \<and>
      (\<forall>tid. tasks (snd (deleteBoard s uid bid)) tid =
           (case tasks s tid of
              None \<Rightarrow> None
            | Some t \<Rightarrow> if t_board t = bid then None else Some t))"
    by (auto simp: deleteBoard_def withBoard_def deleteMany_def
        split: sum.splits option.splits if_splits)
qed

theorem deleteProject_keeps_tasks_witness:
  "fst (deleteProject ex_db 5 10) = Ok \<and>
   projects (snd (deleteProject ex_db 5 10)) 10 = None \<and>
   boards (snd (deleteProject ex_db 5 10)) 20 = None \<and>
   activities (snd (deleteProject ex_db 5 10)) = [] \<and>
   notifications (snd (deleteProject ex_db 5 10)) = [] \<and>
   tasks (snd (deleteProject ex_db 5 10)) 41 = Some (ex_task 31 0) \<and>
   tasks (snd (deleteProject ex_db 5 10)) = tasks ex_db \<and>
   fst (deleteBoard ex_db 5 20) = Ok \<and>
   tasks (snd (deleteBoard ex_db 5 20)) 41 = None"
proof -
  note T = deleteProject_keeps_tasks [of ex_db 5 10 20]
  have ok: "fst (deleteProject ex_db 5 10) = Ok"
    by (simp add: deleteProject_def isAdminOrOwner_def ex_defs)
  have ok': "fst (deleteBoard ex_db 5 20) = Ok"
    by (simp add: deleteBoard_def withBoard_def canAccessBoard_def isMember_def ex_defs)
  from T ok have 1: "projects (snd (deleteProject ex_db 5 10)) = (projects ex_db)(10 := None)"
    and 2: "\<forall>k. boards (snd (deleteProject ex_db 5 10)) k =
           (case boards ex_db k of
              None \<Rightarrow> None
            | Some b \<Rightarrow> if b_project b = 10 then None else Some b)"
    and 3: "activities (snd (deleteProject ex_db 5 10)) =
        filter (\<lambda>a. a_projectId a \<noteq> 10) (activities ex_db)"
    and 4: "notifications (snd (deleteProject ex_db 5 10)) =
        filter (\<lambda>n. n_projectId n \<noteq> Some 10) (notifications ex_db)"
    by blast+
  from T have 5: "tasks (snd (deleteProject ex_db 5 10)) = tasks ex_db" by blast
  from T ok' have 6: "\<forall>tid. tasks (snd (deleteBoard ex_db 5 20)) tid =
           (case tasks ex_db tid of
              None \<Rightarrow> None
            | Some t \<Rightarrow> if t_board t = 20 then None else Some t)" by blast
  have bd: "boards ex_db 20 = Some ex_board" and tk: "tasks ex_db 41 = Some (ex_task 31 0)"
    and ac: "filter (\<lambda>a. a_projectId a \<noteq> 10) (activities ex_db) = []"
    and nt: "filter (\<lambda>n. n_projectId n \<noteq> Some 10) (notifications ex_db) = []"
    by (simp_all add: ex_db_def)
  have a: "projects (snd (deleteProject ex_db 5 10)) 10 = None" by (simp add: 1)
  have b: "boards (snd (deleteProject ex_db 5 10)) 20 = None"
    by (simp add: 2 bd) (simp add: ex_board_def)
  have c: "tasks (snd (deleteBoard ex_db 5 20)) 41 = None"
    by (simp add: 6 tk) (simp add: ex_task_def)
  from ok ok' a b c 3 4 5 ac nt tk show ?thesis by simp
qed

section \<open>Reordering columns\<close>

lemma reorderColumns_unchanged: "snd (reorderColumns s uid bid newOrder) = s"
  by (simp add: reorderColumns_def updateColumn_def withBoard_def
      split: sum.split option.split prod.split)

lemma reorderColumns_reply:
  "canAccessBoard s uid bid = Inr (b, p) \<Longrightarrow> reorderColumns s uid bid newOrder = (Err NotFound, s)"
  by (simp add: reorderColumns_def updateColumn_def withBoard_Inr findIndex_None_iff
      split: option.split)

text \<open>
  Claim C2 says that a \<open>reorderColumns\<close> request with a list that is not a permutation of
  the board's column ids fails with ValidationError. As the routes are registered the
  request never reaches the check: on the example board with columns 31, 32, 33 member 5
  gets NotFound for the list 33, 34, 31 with its unknown id, for the list 33, 31 that leaves
  32 out, and for the permutation 33, 31, 32 as well; the board stays as it was each time.
\<close>

theorem reorder_request_shadowed:
  "reorderColumns ex_db 5 20 [33, 34, 31] = (Err NotFound, ex_db) \<and>
   reorderColumns ex_db 5 20 [33, 31] = (Err NotFound, ex_db) \<and>
   reorderColumns ex_db 5 20 [33, 31, 32] = (Err NotFound, ex_db) \<and>
   map c_id (columns (the (boards ex_db 20))) = [31, 32, 33]"
  by (simp add: reorderColumns_def updateColumn_def withBoard_def canAccessBoard_def
      isMember_def ex_defs)

section \<open>Moving a task\<close>

lemma removeTaskId_cases:
  "(case removeTaskId cols columnId tid of None \<Rightarrow> cols | Some cols' \<Rightarrow> cols') =
     (case findIndex (\<lambda>c. c_id c = columnId) cols of
        None \<Rightarrow> cols
      | Some si \<Rightarrow> cols[si := (cols ! si)\<lparr>taskIds := remove1 tid (taskIds (cols ! si))\<rparr>])"
proof (cases "findIndex (\<lambda>c. c_id c = columnId) cols")
  case None
  then show ?thesis by (simp add: removeTaskId_def)
next
  case (Some si)
  show ?thesis
  proof (cases "findIndex (\<lambda>taskId. taskId = tid) (taskIds (cols ! si))")
    case None
    then have "remove1 tid (taskIds (cols ! si)) = taskIds (cols ! si)"
      by (rule findIndex_eq_None_remove1)
    with Some None show ?thesis by (simp add: removeTaskId_def)
  next
    case (Some k)
    then have "array_splice (taskIds (cols ! si)) (int k) 1 [] = remove1 tid (taskIds (cols ! si))"
      using splice_found_remove1 by simp
    with \<open>findIndex (\<lambda>c. c_id c = columnId) cols = Some si\<close> Some show ?thesis
      by (simp add: removeTaskId_def)
  qed
qed

lemma removed_length:
  "length (case removeTaskId cols columnId tid of None \<Rightarrow> cols | Some cols' \<Rightarrow> cols') = length cols"
  by (simp add: removeTaskId_cases split: option.split)

lemma removed_ids:
  "map c_id (case removeTaskId cols columnId tid of None \<Rightarrow> cols | Some cols' \<Rightarrow> cols') = map c_id cols"
  by (simp add: removeTaskId_cases map_update list_update_same_conv findIndex_Some_less
      split: option.split)

lemma removed_taskIds:
  "i < length cols \<Longrightarrow>
   taskIds ((case removeTaskId cols columnId tid of None \<Rightarrow> cols | Some cols' \<Rightarrow> cols') ! i) =
     (if findIndex (\<lambda>c. c_id c = columnId) cols = Some i then remove1 tid (taskIds (cols ! i))
      else taskIds (cols ! i))"
  by (auto simp: removeTaskId_cases nth_list_update split: option.split)

lemma removed_nth_id:
  assumes "i < length cols"
  shows "c_id ((case removeTaskId cols columnId tid of None \<Rightarrow> cols | Some cols' \<Rightarrow> cols') ! i) =
         c_id (cols ! i)"
proof -
  let ?cols = "case removeTaskId cols columnId tid of None \<Rightarrow> cols | Some cols' \<Rightarrow> cols'"
  have "map c_id ?cols ! i = map c_id cols ! i" by (simp only: removed_ids)
  with assms show ?thesis by (simp add: removed_length)
qed

lemma dropBits_small: "m < 2 ^ 53 \<Longrightarrow> dropBits m = 0"
  by (simp add: dropBits.simps)

lemma jsonNumber_safe: "\<bar>n\<bar> < 2 ^ 53 \<Longrightarrow> jsonNumber n = n"
proof -
  assume "\<bar>n\<bar> < 2 ^ 53"
  then have "nat \<bar>n\<bar> < 2 ^ 53" by (simp add: nat_less_iff)
  then have "dropBits (nat \<bar>n\<bar>) = 0" by (rule dropBits_small)
  then show ?thesis by (simp add: jsonNumber_def Let_def sgn_if)
qed

lemma dropBits_sextillion: "dropBits 1000000000000000000000 = 17"
  by (simp add: dropBits.simps)

lemma jsonNumber_sextillion: "jsonNumber 1000000000000000000000 = 1000000000000000000000"
  by (simp add: jsonNumber_def Let_def dropBits_sextillion)

lemma jsonNumber_rounds: "jsonNumber 9007199254740993 = 9007199254740992"
proof -
  have "dropBits 9007199254740993 = Suc 0" by (simp add: dropBits.simps)
  then show ?thesis by (simp add: jsonNumber_def Let_def)
qed

lemma moveTask_found:
  assumes acc: "canAccessTask s uid tid = Inr (t, b, p)"
      and tgt: "findIndex (\<lambda>c. c_id c = columnId) (columns b) = Some ti"
      and num: "isNumeric (jsonNumber n)"
      and ord: "ord = jsonNumber n"
  shows "moveTask s uid tid columnId n =
     (Ok, s\<lparr>boards := (boards s)(t_board t \<mapsto> b\<lparr>columns :=
                 (case removeTaskId (columns b) (t_column t) tid of
                    None \<Rightarrow> columns b | Some cols' \<Rightarrow> cols')
                 [ti := ((case removeTaskId (columns b) (t_column t) tid of
                            None \<Rightarrow> columns b | Some cols' \<Rightarrow> cols') ! ti)
                    \<lparr>taskIds := array_splice
                       (taskIds ((case removeTaskId (columns b) (t_column t) tid of
                                    None \<Rightarrow> columns b | Some cols' \<Rightarrow> cols') ! ti))
                       ord 0 [tid]\<rparr>]\<rparr>),
             tasks := (tasks s)(tid \<mapsto> t\<lparr>t_column := columnId, t_order := ord\<rparr>),
             activities := activities s @
               [\<lparr>a_user = uid, a_action = ''moved'', a_entityType = ''task'',
                 a_entityId = tid, a_projectId = b_project b,
                 a_boardId = Some (t_board t)\<rparr>]\<rparr>)"
  using acc tgt num by (simp add: moveTask_def withTask_Inr Let_def ord)

lemma moveTask_not_found:
  assumes acc: "canAccessTask s uid tid = Inr (t, b, p)"
      and tgt: "findIndex (\<lambda>c. c_id c = columnId) (columns b) = None"
  shows "snd (moveTask s uid tid columnId n) = s" "fst (moveTask s uid tid columnId n) \<noteq> Ok"
  using acc tgt by (simp_all add: moveTask_def withTask_Inr Let_def)

lemma moveTask_not_numeric:
  assumes acc: "canAccessTask s uid tid = Inr (t, b, p)"
      and num: "\<not> isNumeric (jsonNumber n)"
  shows "moveTask s uid tid columnId n = (Err ValidationError, s)"
  using acc num by (simp add: moveTask_def withTask_Inr Let_def)

lemma spliceStart_le: "spliceStart n i \<le> n"
  by (auto simp: spliceStart_def max_def min_def)

lemma spliceStart_nonneg: "0 \<le> i \<Longrightarrow> spliceStart n i = clampIndex i n"
  by (simp add: spliceStart_def clampIndex_def max_def min_def)

lemma spliceStart_neg: "i < 0 \<Longrightarrow> spliceStart n i = nat (max (int n + i) 0)"
  by (simp add: spliceStart_def)

text \<open>
  Claim C5 says that the task id is inserted at \<open>destIndex\<close> clamped to the range from 0 to
  the length of the destination list. For a negative index the route does not clamp:
  \<open>splice\<close> counts a negative start from the end. Moving task 43 to the column holding
  41, 42 with \<open>order = -1\<close> gives 41, 43, 42, not 43, 41, 42.
\<close>

theorem moveTask_negative_index:
  "taskIds (columns (the (boards ex_db 20)) ! 0) = [41, 42] \<and>
   fst (moveTask ex_db 5 43 31 (- 1)) = Ok \<and>
   taskIds (columns (the (boards (snd (moveTask ex_db 5 43 31 (- 1))) 20)) ! 0) =
     [41, 43, 42] \<and>
   clampIndex (- 1) (length [41, 42 :: oid]) = 0 \<and>
   take 0 [41, 42] @ [43] @ drop 0 [41, 42] = [43, 41, 42 :: oid]"
  by (simp add: moveTask_def withTask_def canAccessTask_def isMember_def ex_defs
      removeTaskId_def array_splice_def spliceStart_def clampIndex_def jsonNumber_safe
      isNumeric_def)

text \<open>
  Claim C5, amended. Take a requester with access to the task, a destination column that
  exists in the task's board, and an integer \<open>destIndex\<close>; let \<open>ord\<close> be the double the
  server reads it as (\<open>destIndex\<close> itself when its magnitude is below \<open>2^53\<close>). When the
  magnitude of \<open>ord\<close> reaches \<open>10^21\<close> the request is answered ValidationError and
  nothing is written. Otherwise \<open>moveTask\<close> succeeds, sets the task's \<open>column\<close> field to
  the destination column id and its \<open>order\<close> field to \<open>ord\<close>, and inserts the task id
  into the destination column's list as it is after the task was taken out of its source
  column (\<open>rest\<close>): at \<open>ord\<close> clamped to the range from 0 to the length of that list
  when \<open>ord\<close> is not negative, and at the length plus \<open>ord\<close>, but not before 0, when it
  is negative.
\<close>

theorem moveTask_inserts:
  assumes acc: "canAccessTask s uid tid = Inr (t, b, p)"
      and tgt: "findIndex (\<lambda>c. c_id c = columnId) (columns b) = Some ti"
  shows "let ord = jsonNumber n;
             rest = (if findIndex (\<lambda>c. c_id c = t_column t) (columns b) = Some ti
                     then remove1 tid (taskIds (columns b ! ti))
                     else taskIds (columns b ! ti));
             k = spliceStart (length rest) ord
         in (\<bar>n\<bar> < 2 ^ 53 \<longrightarrow> ord = n) \<and>
            (10 ^ 21 \<le> \<bar>ord\<bar> \<longrightarrow> moveTask s uid tid columnId n = (Err ValidationError, s)) \<and>
            (\<bar>ord\<bar> < 10 ^ 21 \<longrightarrow>
               fst (moveTask s uid tid columnId n) = Ok \<and>
               tasks (snd (moveTask s uid tid columnId n)) tid =
                 Some (t\<lparr>t_column := columnId, t_order := ord\<rparr>) \<and>
               (\<exists>b'. boards (snd (moveTask s uid tid columnId n)) (t_board t) = Some b' \<and>
                    map c_id (columns b') = map c_id (columns b) \<and>
                    taskIds (columns b' ! ti) = take k rest @ [tid] @ drop k rest) \<and>
               (0 \<le> ord \<longrightarrow> k = clampIndex ord (length rest)) \<and>
               (ord < 0 \<longrightarrow> k = nat (max (int (length rest) + ord) 0)))"
proof -
  define ord where "ord = jsonNumber n"
  define rest where "rest = (if findIndex (\<lambda>c. c_id c = t_column t) (columns b) = Some ti
                         then remove1 tid (taskIds (columns b ! ti))
                         else taskIds (columns b ! ti))"
  define k where "k = spliceStart (length rest) ord"
  have safe: "\<bar>n\<bar> < 2 ^ 53 \<longrightarrow> ord = n"
    by (simp add: ord_def jsonNumber_safe)
  have bad: "moveTask s uid tid columnId n = (Err ValidationError, s)" if "10 ^ 21 \<le> \<bar>ord\<bar>"
    using that moveTask_not_numeric [OF acc, of n columnId] by (simp add: isNumeric_def ord_def)
  have good: "fst (moveTask s uid tid columnId n) = Ok \<and>
       tasks (snd (moveTask s uid tid columnId n)) tid =
         Some (t\<lparr>t_column := columnId, t_order := ord\<rparr>) \<and>
       (\<exists>b'. boards (snd (moveTask s uid tid columnId n)) (t_board t) = Some b' \<and>
            map c_id (columns b') = map c_id (columns b) \<and>
            taskIds (columns b' ! ti) = take k rest @ [tid] @ drop k rest)"
    if "\<bar>ord\<bar> < 10 ^ 21"
  proof -
    from that have num: "isNumeric (jsonNumber n)" by (simp add: isNumeric_def ord_def)
    let ?cols = "case removeTaskId (columns b) (t_column t) tid of
                   None \<Rightarrow> columns b | Some cols' \<Rightarrow> cols'"
    let ?cols2 = "?cols[ti := (?cols ! ti)\<lparr>taskIds := array_splice (taskIds (?cols ! ti)) ord 0 [tid]\<rparr>]"
    from tgt have ti: "ti < length (columns b)" by (rule findIndex_Some_less)
    then have r: "taskIds (?cols ! ti) = rest"
      by (simp add: removed_taskIds rest_def)
    have len: "length ?cols = length (columns b)" by (rule removed_length)
    have ids: "map c_id ?cols2 = map c_id (columns b)"
      by (simp add: map_update removed_ids list_update_same_conv ti removed_nth_id)
    have tl: "taskIds (?cols2 ! ti) = take k rest @ [tid] @ drop k rest"
      using ti len by (simp add: r splice_insert k_def)
    note m = moveTask_found [OF acc tgt num ord_def]
    have bs: "boards (snd (moveTask s uid tid columnId n)) (t_board t) = Some (b\<lparr>columns := ?cols2\<rparr>)"
      by (simp add: m)
    have "fst (moveTask s uid tid columnId n) = Ok"
      and "tasks (snd (moveTask s uid tid columnId n)) tid =
             Some (t\<lparr>t_column := columnId, t_order := ord\<rparr>)"
      by (simp_all add: m)
    with ids tl bs show ?thesis by simp
  qed
  have pos: "0 \<le> ord \<longrightarrow> k = clampIndex ord (length rest)"
    and neg: "ord < 0 \<longrightarrow> k = nat (max (int (length rest) + ord) 0)"
    by (simp_all add: k_def spliceStart_nonneg spliceStart_neg)
  from safe bad good pos neg show ?thesis
    unfolding Let_def ord_def [symmetric] rest_def [symmetric] k_def [symmetric]
    by blast
qed

theorem moveTask_inserts_witness:
  "fst (moveTask ex_db 5 42 33 7) = Ok \<and>
   tasks (snd (moveTask ex_db 5 42 33 7)) 42 = Some (ex_task 33 7) \<and>
   taskIds (columns (the (boards (snd (moveTask ex_db 5 42 33 7)) 20)) ! 2) = [43, 42] \<and>
   clampIndex 7 (length [43 :: oid]) = 1 \<and>
   moveTask ex_db 5 42 33 1000000000000000000000 = (Err ValidationError, ex_db)"
proof -
  have acc: "canAccessTask ex_db 5 42 = Inr (ex_task 31 1, ex_board, ex_project)"
    by (simp add: canAccessTask_def isMember_def ex_defs)
  have tgt: "findIndex (\<lambda>c. c_id c = 33) (columns ex_board) = Some 2"
    by (simp add: ex_board_def)
  have src: "findIndex (\<lambda>c. c_id c = t_column (ex_task 31 1)) (columns ex_board) \<noteq> Some 2"
    by (simp add: ex_board_def ex_task_def)
  have rest: "taskIds (columns ex_board ! 2) = [43]"
    by (simp add: ex_board_def)
  have k: "spliceStart (Suc 0) 7 = Suc 0" "clampIndex 7 (Suc 0) = Suc 0"
    by (simp_all add: spliceStart_def clampIndex_def)
  have tb: "t_board (ex_task 31 1) = 20"
    and tt: "ex_task 31 1\<lparr>t_column := 33, t_order := 7\<rparr> = ex_task 33 7"
    by (simp_all add: ex_task_def)
  have j: "jsonNumber 7 = 7" by (simp add: jsonNumber_safe)
  from moveTask_inserts [OF acc tgt, of 7] src
  have "fst (moveTask ex_db 5 42 33 7) = Ok \<and>
        tasks (snd (moveTask ex_db 5 42 33 7)) 42 = Some (ex_task 33 7) \<and>
        (\<exists>b'. boards (snd (moveTask ex_db 5 42 33 7)) 20 = Some b' \<and>
             taskIds (columns b' ! 2) = [43, 42])"
    by (auto simp add: Let_def rest k tb tt j)
  moreover from moveTask_inserts [OF acc tgt, of 1000000000000000000000]
  have "moveTask ex_db 5 42 33 1000000000000000000000 = (Err ValidationError, ex_db)"
    by (simp add: Let_def jsonNumber_sextillion)
  ultimately show ?thesis using k by auto
qed

text \<open>
  Claim C1 says that every \<open>moveTask\<close> call removes the element at the caller's
  \<open>sourceIndex\<close>. The server route does not: it is not given a source index and removes the
  task's own id. With task 42 at index 1 of the column 41, 42 and a caller that passes the
  stale source index 0, the server leaves 41 in the column, where removal by position (and
  the client's mirror) leaves 42.
\<close>

theorem server_removes_by_id:
  "taskIds (columns (the (boards ex_db 20)) ! 0) = [41, 42] \<and>
   fst (moveTask ex_db 5 42 32 0) = Ok \<and>
   taskIds (columns (the (boards (snd (moveTask ex_db 5 42 32 0)) 20)) ! 0) = [41] \<and>
   array_splice [41, 42 :: oid] 0 1 [] = [42] \<and>
   taskIds (columns (the (currentBoard (store_moveTask ex_store 42 31 32 0 0))) ! 0) = [42]"
  by (simp add: moveTask_def withTask_def canAccessTask_def isMember_def ex_defs
      removeTaskId_def array_splice_def spliceStart_def store_moveTask_def jsonNumber_safe
      isNumeric_def ex_store_def)

text \<open>
  Claim C1, amended. A \<open>moveTask\<close> call of the client's board store for a task id that
  the store does not hold changes nothing. For a task the store holds, when the source and
  the destination column are both found in the current board, the source column's
  \<open>taskIds\<close> lose what \<open>splice(sourceIndex, 1)\<close> removes, whatever the moved task's id is
  (the id is only inserted afterwards, into the same list when the two columns are the same
  one): for a source index within the list, the element at that index. The server's move
  route is given no source index: on a valid request whose destination column exists, the
  column found for the task's \<open>column\<close> field loses the first occurrence of the task's
  id (and, when it is the destination as well, gets the id back at the position asked for).
\<close>

theorem store_moveTask_removes_by_position:
  "(find (\<lambda>(i, t). i = taskId) (storeTasks state) = None \<longrightarrow>
      store_moveTask state taskId sourceColumnId destinationColumnId sourceIndex
        destinationIndex = state) \<and>
   (find (\<lambda>(i, t). i = taskId) (storeTasks state) = Some task \<and>
    currentBoard state = Some board \<and>
    findIndex (\<lambda>col. c_id col = sourceColumnId) (columns board) = Some si \<and>
    findIndex (\<lambda>col. c_id col = destinationColumnId) (columns board) = Some di \<longrightarrow>
      (\<exists>board'. currentBoard (store_moveTask state taskId sourceColumnId destinationColumnId
                    sourceIndex destinationIndex) = Some board' \<and>
         taskIds (columns board' ! si) =
           (if di = si
            then array_splice (array_splice (taskIds (columns board ! si)) sourceIndex 1 [])
                   destinationIndex 0 [taskId]
            else array_splice (taskIds (columns board ! si)) sourceIndex 1 []))) \<and>
   (k < length (xs :: oid list) \<longrightarrow>
      array_splice xs (int k) 1 [] = take k xs @ drop (Suc k) xs) \<and>
   (canAccessTask s uid taskId = Inr (t, b, p) \<and> isNumeric (jsonNumber n) \<and>
    findIndex (\<lambda>c. c_id c = columnId) (columns b) = Some ti \<and>
    findIndex (\<lambda>c. c_id c = t_column t) (columns b) = Some sourceColumnIndex \<longrightarrow>
      (\<exists>b'. boards (snd (moveTask s uid taskId columnId n)) (t_board t) = Some b' \<and>
         taskIds (columns b' ! sourceColumnIndex) =
           (if ti = sourceColumnIndex
            then array_splice (remove1 taskId (taskIds (columns b ! sourceColumnIndex)))
                   (jsonNumber n) 0 [taskId]
            else remove1 taskId (taskIds (columns b ! sourceColumnIndex)))))"
proof (intro conjI impI)
  assume "find (\<lambda>(i, t). i = taskId) (storeTasks state) = None"
  then show "store_moveTask state taskId sourceColumnId destinationColumnId sourceIndex
        destinationIndex = state"
    by (simp add: store_moveTask_def)
next
  assume a: "find (\<lambda>(i, t). i = taskId) (storeTasks state) = Some task \<and>
    currentBoard state = Some board \<and>
    findIndex (\<lambda>col. c_id col = sourceColumnId) (columns board) = Some si \<and>
    findIndex (\<lambda>col. c_id col = destinationColumnId) (columns board) = Some di"
  then have si: "si < length (columns board)" and di: "di < length (columns board)"
    by (auto dest: findIndex_Some_less)
  with a show "\<exists>board'. currentBoard (store_moveTask state taskId sourceColumnId
                    destinationColumnId sourceIndex destinationIndex) = Some board' \<and>
         taskIds (columns board' ! si) =
           (if di = si
            then array_splice (array_splice (taskIds (columns board ! si)) sourceIndex 1 [])
                   destinationIndex 0 [taskId]
            else array_splice (taskIds (columns board ! si)) sourceIndex 1 [])"
    by (auto simp: store_moveTask_def Let_def nth_list_update)
next
  assume "k < length xs"
  then show "array_splice xs (int k) 1 [] = take k xs @ drop (Suc k) xs"
    by (simp add: splice_delete_one)
next
  assume a: "canAccessTask s uid taskId = Inr (t, b, p) \<and> isNumeric (jsonNumber n) \<and>
    findIndex (\<lambda>c. c_id c = columnId) (columns b) = Some ti \<and>
    findIndex (\<lambda>c. c_id c = t_column t) (columns b) = Some sourceColumnIndex"
  define cols where "cols = (case removeTaskId (columns b) (t_column t) taskId of
                               None \<Rightarrow> columns b | Some cols' \<Rightarrow> cols')"
  from a have acc: "canAccessTask s uid taskId = Inr (t, b, p)"
    and num: "isNumeric (jsonNumber n)"
    and tgt: "findIndex (\<lambda>c. c_id c = columnId) (columns b) = Some ti"
    and src: "findIndex (\<lambda>c. c_id c = t_column t) (columns b) = Some sourceColumnIndex"
    by simp_all
  from tgt src have ti: "ti < length (columns b)" and si: "sourceColumnIndex < length (columns b)"
    by (simp_all add: findIndex_Some_less)
  have len: "length cols = length (columns b)" unfolding cols_def by (rule removed_length)
  have r: "taskIds (cols ! sourceColumnIndex) =
           remove1 taskId (taskIds (columns b ! sourceColumnIndex))"
    unfolding cols_def using si src by (simp add: removed_taskIds)
  note m = moveTask_found [OF acc tgt num refl, folded cols_def]
  have "boards (snd (moveTask s uid taskId columnId n)) (t_board t) =
          Some (b\<lparr>columns := cols[ti := (cols ! ti)
                   \<lparr>taskIds := array_splice (taskIds (cols ! ti)) (jsonNumber n) 0 [taskId]\<rparr>]\<rparr>)"
    by (simp add: m)
  moreover have "taskIds (cols[ti := (cols ! ti)
                   \<lparr>taskIds := array_splice (taskIds (cols ! ti)) (jsonNumber n) 0 [taskId]\<rparr>]
                   ! sourceColumnIndex) =
           (if ti = sourceColumnIndex
            then array_splice (remove1 taskId (taskIds (columns b ! sourceColumnIndex)))
                   (jsonNumber n) 0 [taskId]
            else remove1 taskId (taskIds (columns b ! sourceColumnIndex)))"
    using ti si len r by (auto simp: nth_list_update)
  ultimately show "\<exists>b'. boards (snd (moveTask s uid taskId columnId n)) (t_board t) = Some b' \<and>
         taskIds (columns b' ! sourceColumnIndex) =
           (if ti = sourceColumnIndex
            then array_splice (remove1 taskId (taskIds (columns b ! sourceColumnIndex)))
                   (jsonNumber n) 0 [taskId]
            else remove1 taskId (taskIds (columns b ! sourceColumnIndex)))"
    by simp
qed

theorem store_moveTask_removes_by_position_witness:
  "store_moveTask ex_store 99 31 32 0 0 = ex_store \<and>
   taskIds (columns (the (currentBoard (store_moveTask ex_store 42 31 32 0 0))) ! 0) = [42] \<and>
   array_splice [41, 42 :: oid] 0 1 [] = [42] \<and>
   taskIds (columns (the (boards (snd (moveTask ex_db 5 42 32 0)) 20)) ! 0) = [41]"
proof -
  have f0: "find (\<lambda>(i, t). i = 99) (storeTasks ex_store) = None"
    and f1: "find (\<lambda>(i, t). i = 42) (storeTasks ex_store) = Some (42, ex_task 31 1)"
    and cb: "currentBoard ex_store = Some ex_board"
    by (simp_all add: ex_store_def)
  have src: "findIndex (\<lambda>col. c_id col = 31) (columns ex_board) = Some 0"
    and dst: "findIndex (\<lambda>col. c_id col = 32) (columns ex_board) = Some 1"
    by (simp_all add: ex_board_def)
  have l: "taskIds (columns ex_board ! 0) = [41, 42]" by (simp add: ex_board_def)
  have sp: "array_splice [41, 42 :: oid] 0 1 [] = [42]"
    by (simp add: array_splice_def spliceStart_def)
  have acc: "canAccessTask ex_db 5 42 = Inr (ex_task 31 1, ex_board, ex_project)"
    by (simp add: canAccessTask_def isMember_def ex_defs)
  have num: "isNumeric (jsonNumber 0)" by (simp add: jsonNumber_safe isNumeric_def)
  have src': "findIndex (\<lambda>c. c_id c = t_column (ex_task 31 1)) (columns ex_board) = Some 0"
    by (simp add: ex_board_def ex_task_def)
  have tb: "t_board (ex_task 31 1) = 20" by (simp add: ex_task_def)
  note T1 = store_moveTask_removes_by_position [where state = ex_store and taskId = 99
      and sourceColumnId = 31 and destinationColumnId = 32 and sourceIndex = 0
      and destinationIndex = 0]
  note T2 = store_moveTask_removes_by_position [where state = ex_store and taskId = 42
      and sourceColumnId = 31 and destinationColumnId = 32 and sourceIndex = 0
      and destinationIndex = 0 and task = "(42, ex_task 31 1)" and board = ex_board
      and si = 0 and di = 1 and s = ex_db and uid = 5 and t = "ex_task 31 1" and b = ex_board
      and p = ex_project and n = 0 and columnId = 32 and ti = 1 and sourceColumnIndex = 0]
  from T1 f0 have 1: "store_moveTask ex_store 99 31 32 0 0 = ex_store" by blast
  from T2 f1 cb src dst
  have "\<exists>board'. currentBoard (store_moveTask ex_store 42 31 32 0 0) = Some board' \<and>
          taskIds (columns board' ! 0) = array_splice (taskIds (columns ex_board ! 0)) 0 1 []"
    by simp
  then have 2: "taskIds (columns (the (currentBoard (store_moveTask ex_store 42 31 32 0 0))) ! 0)
                 = [42]"
    using sp by (auto simp: l)
  from T2 acc num dst src'
  have "\<exists>b'. boards (snd (moveTask ex_db 5 42 32 0)) (t_board (ex_task 31 1)) = Some b' \<and>
          taskIds (columns b' ! 0) = remove1 42 (taskIds (columns ex_board ! 0))"
    by simp
  then have 3: "taskIds (columns (the (boards (snd (moveTask ex_db 5 42 32 0)) 20)) ! 0) = [41]"
    by (auto simp: l tb)
  from 1 2 3 sp show ?thesis by simp
qed

section \<open>Moving a task twice\<close>

lemma findIndex_c_id_cong:
  "map c_id cols' = map c_id cols \<Longrightarrow>
   findIndex (\<lambda>c. c_id c = x) cols' = findIndex (\<lambda>c. c_id c = x) cols"
proof (induction cols arbitrary: cols')
  case Nil
  then show ?case by simp
next
  case (Cons c cols)
  then obtain d ds where "cols' = d # ds" by (cases cols') auto
  with Cons show ?case by auto
qed

lemma remove1_inserted:
  "a \<notin> set xs \<Longrightarrow> remove1 a (take k xs @ a # drop k xs) = xs"
proof -
  assume a: "a \<notin> set xs"
  then have "a \<notin> set (take k xs)" by (auto dest: in_set_takeD)
  then show ?thesis by (simp add: remove1_append)
qed

lemma count_le_one_remove1:
  "count_list xs a \<le> 1 \<Longrightarrow> a \<notin> set (remove1 a xs)"
proof (induction xs)
  case Nil
  then show ?case by simp
next
  case (Cons x xs)
  then show ?case by (auto simp: count_list_0_iff split: if_splits)
qed

lemma move_again_columns:
  assumes ti: "ti < length cols"
      and tgt: "findIndex (\<lambda>c. c_id c = columnId) cols = Some ti"
      and notin: "tid \<notin> set (taskIds (cols ! ti))"
      and cols2: "cols2 = cols[ti := (cols ! ti)\<lparr>taskIds := array_splice (taskIds (cols ! ti)) ord 0 [tid]\<rparr>]"
      and again: "again = (case removeTaskId cols2 columnId tid of None \<Rightarrow> cols2 | Some c \<Rightarrow> c)"
  shows "again[ti := (again ! ti)\<lparr>taskIds := array_splice (taskIds (again ! ti)) ord 0 [tid]\<rparr>] = cols2"
proof -
  define rest where "rest = taskIds (cols ! ti)"
  define k where "k = spliceStart (length rest) ord"
  have ins: "array_splice rest ord 0 [tid] = take k rest @ tid # drop k rest"
    by (simp add: splice_insert k_def)
  have ids2: "map c_id cols2 = map c_id cols"
    by (simp add: cols2 map_update list_update_same_conv ti)
  have src: "findIndex (\<lambda>c. c_id c = columnId) cols2 = Some ti"
    using findIndex_c_id_cong [OF ids2, of columnId] tgt by simp
  have l2: "ti < length cols2" using ti by (simp add: cols2)
  have t2: "taskIds (cols2 ! ti) = take k rest @ tid # drop k rest"
    using ti by (simp add: cols2 rest_def [symmetric] ins)
  have rm: "remove1 tid (take k rest @ tid # drop k rest) = rest"
    using notin by (simp add: remove1_inserted rest_def)
  have a: "again = cols2[ti := (cols2 ! ti)\<lparr>taskIds := rest\<rparr>]"
    by (simp add: again removeTaskId_cases src t2 rm)
  have r: "taskIds (again ! ti) = rest"
    using l2 by (simp add: a)
  have c2: "cols2 ! ti = (cols ! ti)\<lparr>taskIds := array_splice rest ord 0 [tid]\<rparr>"
    using ti by (simp add: cols2 rest_def)
  show ?thesis
    unfolding r using l2 by (simp add: a c2 list_update_same_conv)
qed

text \<open>
  Claim C6. Let the requester have access to task \<open>T\<close>, and let the board list \<open>T\<close>'s id
  once at most and only in \<open>T\<close>'s own column, as the data model requires. Then moving \<open>T\<close>
  to column \<open>C\<close> at index \<open>i\<close> and moving it there again leaves the boards and the tasks
  exactly as the first move left them, with the same reply, for every column id and every
  index (in range or not). Only the activity log grows.
\<close>

theorem moveTask_idempotent:
  assumes acc: "canAccessTask s uid tid = Inr (t, b, p)"
      and once: "taskListedOnce b t tid"
  shows "fst (moveTask (snd (moveTask s uid tid columnId ord)) uid tid columnId ord) =
           fst (moveTask s uid tid columnId ord) \<and>
         boards (snd (moveTask (snd (moveTask s uid tid columnId ord)) uid tid columnId ord)) =
           boards (snd (moveTask s uid tid columnId ord)) \<and>
         tasks (snd (moveTask (snd (moveTask s uid tid columnId ord)) uid tid columnId ord)) =
           tasks (snd (moveTask s uid tid columnId ord))"
proof (cases "isNumeric (jsonNumber ord)")
  case False
  from moveTask_not_numeric [OF acc False] show ?thesis by simp
next
  case num: True
  show ?thesis
  proof (cases "findIndex (\<lambda>c. c_id c = columnId) (columns b)")
  case None
  from moveTask_not_found(1) [OF acc None] show ?thesis by simp
next
  case (Some ti)
  define d where "d = jsonNumber ord"
  define cols where "cols = (case removeTaskId (columns b) (t_column t) tid of
                               None \<Rightarrow> columns b | Some cols' \<Rightarrow> cols')"
  define cols2 where
    "cols2 = cols[ti := (cols ! ti)\<lparr>taskIds := array_splice (taskIds (cols ! ti)) d 0 [tid]\<rparr>]"
  define t1 where "t1 = t\<lparr>t_column := columnId, t_order := d\<rparr>"
  define b1 where "b1 = b\<lparr>columns := cols2\<rparr>"
  define s1 where "s1 = snd (moveTask s uid tid columnId ord)"
  have m1: "moveTask s uid tid columnId ord =
     (Ok, s\<lparr>boards := (boards s)(t_board t \<mapsto> b1), tasks := (tasks s)(tid \<mapsto> t1),
             activities := activities s @
               [\<lparr>a_user = uid, a_action = ''moved'', a_entityType = ''task'',
                 a_entityId = tid, a_projectId = b_project b,
                 a_boardId = Some (t_board t)\<rparr>]\<rparr>)"
    unfolding b1_def t1_def cols2_def cols_def by (rule moveTask_found [OF acc Some num d_def])
  from Some have ti: "ti < length (columns b)" by (rule findIndex_Some_less)
  have len: "length cols = length (columns b)" unfolding cols_def by (rule removed_length)
  have ids: "map c_id cols = map c_id (columns b)" unfolding cols_def by (rule removed_ids)
  have ids2: "map c_id cols2 = map c_id cols"
    using ti len by (simp add: cols2_def map_update list_update_same_conv)
  \<comment> \<open>the destination list held no copy of the id before the insertion\<close>
  have notin: "tid \<notin> set (taskIds (cols ! ti))"
  proof (cases "findIndex (\<lambda>c. c_id c = t_column t) (columns b) = Some ti")
    case True
    with once ti have "count_list (taskIds (columns b ! ti)) tid \<le> 1"
      by (auto simp: taskListedOnce_def)
    then have "tid \<notin> set (remove1 tid (taskIds (columns b ! ti)))"
      by (rule count_le_one_remove1)
    with True ti show ?thesis by (simp add: cols_def removed_taskIds)
  next
    case False
    with once ti have "count_list (taskIds (columns b ! ti)) tid = 0"
      by (auto simp: taskListedOnce_def)
    with False ti show ?thesis by (simp add: cols_def removed_taskIds count_list_0_iff)
  qed
  \<comment> \<open>the state after the first move grants the same access\<close>
  from acc have acc': "tasks s tid = Some t" "boards s (t_board t) = Some b"
    "projects s (b_project b) = Some p" "isMember uid p"
    by (simp_all add: canAccessTask_Inr_iff)
  have s1: "boards s1 = (boards s)(t_board t \<mapsto> b1)" "tasks s1 = (tasks s)(tid \<mapsto> t1)"
    "projects s1 = projects s"
    by (simp_all add: s1_def m1)
  have f1: "t_board t1 = t_board t" "t_column t1 = columnId" "b_project b1 = b_project b"
    "columns b1 = cols2"
    by (simp_all add: t1_def b1_def)
  have acc1: "canAccessTask s1 uid tid = Inr (t1, b1, p)"
    using acc' by (simp add: canAccessTask_Inr_iff s1 f1)
  have tgt0: "findIndex (\<lambda>c. c_id c = columnId) cols = Some ti"
    using findIndex_c_id_cong [OF ids, of columnId] Some by simp
  have tgt1: "findIndex (\<lambda>c. c_id c = columnId) (columns b1) = Some ti"
    using findIndex_c_id_cong [OF ids2, of columnId] tgt0 by (simp add: f1)
  \<comment> \<open>the second move takes the id out of the destination and puts it back\<close>
  define again where
    "again = (case removeTaskId cols2 columnId tid of None \<Rightarrow> cols2 | Some c \<Rightarrow> c)"
  have l0: "ti < length cols" using ti len by simp
  have same: "again[ti := (again ! ti)\<lparr>taskIds := array_splice (taskIds (again ! ti)) d 0 [tid]\<rparr>]
                = cols2"
    by (rule move_again_columns [OF l0 tgt0 notin cols2_def again_def])
  have m2: "moveTask s1 uid tid columnId ord =
     (Ok, s1\<lparr>boards := (boards s1)(t_board t \<mapsto> b1\<lparr>columns := cols2\<rparr>),
              tasks := (tasks s1)(tid \<mapsto> t1\<lparr>t_column := columnId, t_order := d\<rparr>),
              activities := activities s1 @
                [\<lparr>a_user = uid, a_action = ''moved'', a_entityType = ''task'',
                  a_entityId = tid, a_projectId = b_project b,
                  a_boardId = Some (t_board t)\<rparr>]\<rparr>)"
    using moveTask_found [OF acc1 tgt1 num d_def]
    unfolding f1 again_def [symmetric] same .
  have "b1\<lparr>columns := cols2\<rparr> = b1" "t1\<lparr>t_column := columnId, t_order := d\<rparr> = t1"
    by (simp_all add: b1_def t1_def)
  then have "boards (snd (moveTask s1 uid tid columnId ord)) = boards s1"
    and "tasks (snd (moveTask s1 uid tid columnId ord)) = tasks s1"
    and "fst (moveTask s1 uid tid columnId ord) = fst (moveTask s uid tid columnId ord)"
    by (simp_all add: m2 m1 s1)
  then show ?thesis unfolding s1_def by simp
  qed
qed

theorem moveTask_idempotent_witness:
  "boards (snd (moveTask (snd (moveTask ex_db 5 41 33 0)) 5 41 33 0)) =
     boards (snd (moveTask ex_db 5 41 33 0)) \<and>
   tasks (snd (moveTask (snd (moveTask ex_db 5 41 33 0)) 5 41 33 0)) =
     tasks (snd (moveTask ex_db 5 41 33 0)) \<and>
   map_option (map taskIds \<circ> columns) (boards (snd (moveTask ex_db 5 41 33 0)) 20) =
     Some [[42], [], [41, 43]]"
proof -
  have acc: "canAccessTask ex_db 5 41 = Inr (ex_task 31 0, ex_board, ex_project)"
    by (simp add: canAccessTask_def isMember_def ex_defs)
  have once: "taskListedOnce ex_board (ex_task 31 0) 41"
    by (auto simp: taskListedOnce_def ex_board_def ex_task_def less_Suc_eq)
  have "map_option (map taskIds \<circ> columns) (boards (snd (moveTask ex_db 5 41 33 0)) 20) =
     Some [[42], [], [41, 43]]"
    by (simp add: moveTask_def withTask_def canAccessTask_def isMember_def ex_defs
      removeTaskId_def array_splice_def spliceStart_def jsonNumber_safe isNumeric_def)
  with moveTask_idempotent [OF acc once, of 33 0] show ?thesis by simp
qed

section \<open>Column order\<close>

lemma boardOk_append:
  assumes "boardOk b" "cid \<notin> c_id ` set (columns b)"
  shows "boardOk (b\<lparr>columns := columns b @ [\<lparr>c_id = cid, c_title = ttl, c_order = n, taskIds = []\<rparr>],
                   columnOrder := columnOrder b @ [cid]\<rparr>)"
  using assms by (auto simp: boardOk_def isPermutationOfColumns_def)

lemma boardOk_remove:
  assumes ok: "boardOk b"
      and i: "findIndex (\<lambda>c. c_id c = columnId) (columns b) = Some i"
  shows "boardOk (b\<lparr>columns := take i (columns b) @ drop (Suc i) (columns b),
                   columnOrder := remove1 columnId (columnOrder b)\<rparr>)"
proof -
  from ok have d: "distinct (map c_id (columns b))" by (simp add: boardOk_def)
  have cols: "take i (columns b) @ drop (Suc i) (columns b) =
              filter (\<lambda>c. c_id c \<noteq> columnId) (columns b)"
    by (rule remove_nth_by_id [OF d i])
  from ok show ?thesis
    unfolding cols
    by (auto simp: boardOk_def isPermutationOfColumns_def distinct_map_filter)
qed

lemma createColumn_board:
  "boards (snd (createColumn s uid bid' cid title)) bid =
     (if bid = bid' \<and> fst (createColumn s uid bid' cid title) = Ok
      then map_option (\<lambda>b. b\<lparr>columns := columns b @
                 [\<lparr>c_id = cid, c_title = trim title, c_order = length (columns b), taskIds = []\<rparr>],
                 columnOrder := columnOrder b @ [cid]\<rparr>) (boards s bid)
      else boards s bid)"
  by (auto simp: createColumn_def withBoard_def canAccessBoard_def Let_def
      split: sum.splits option.splits if_splits)

lemma deleteColumn_board:
  "boards (snd (deleteColumn s uid bid' columnId)) bid =
     (if bid = bid' \<and> fst (deleteColumn s uid bid' columnId) = Ok
      then map_option (\<lambda>b. b\<lparr>columns :=
                 take (the (findIndex (\<lambda>c. c_id c = columnId) (columns b))) (columns b) @
                 drop (Suc (the (findIndex (\<lambda>c. c_id c = columnId) (columns b)))) (columns b),
                 columnOrder := remove1 columnId (columnOrder b)\<rparr>) (boards s bid)
      else boards s bid)"
proof (cases "canAccessBoard s uid bid'")
  case (Inl e)
  then show ?thesis by (simp add: deleteColumn_def withBoard_Inl)
next
  case (Inr ctx)
  obtain b p where ctx: "ctx = (b, p)" by (cases ctx)
  with Inr have acc: "canAccessBoard s uid bid' = Inr (b, p)" by simp
  then have b: "boards s bid' = Some b" by (simp add: canAccessBoard_Inr_iff)
  show ?thesis
  proof (cases "findIndex (\<lambda>c. c_id c = columnId) (columns b)")
    case None
    with acc show ?thesis by (simp add: deleteColumn_def withBoard_Inr)
  next
    case (Some i)
    have ord: "(case findIndex (\<lambda>i. i = columnId) (columnOrder b) of
                None \<Rightarrow> columnOrder b
              | Some orderIndex \<Rightarrow> array_splice (columnOrder b) (int orderIndex) 1 []) =
             remove1 columnId (columnOrder b)"
      by (simp add: splice_found_remove1 findIndex_eq_None_remove1 split: option.split)
    have cols: "array_splice (columns b) (int i) (Suc 0) [] =
                take i (columns b) @ drop (Suc i) (columns b)"
      using Some by (simp add: splice_delete_one findIndex_Some_less)
    from acc Some b show ?thesis
      by (simp add: deleteColumn_def withBoard_Inr Let_def ord cols)
  qed
qed

lemma deleteColumn_Ok_found:
  assumes "fst (deleteColumn s uid bid columnId) = Ok" "boards s bid = Some b"
  shows "\<exists>i. findIndex (\<lambda>c. c_id c = columnId) (columns b) = Some i"
  using assms
  by (auto simp: deleteColumn_def withBoard_def canAccessBoard_def Let_def
      split: sum.splits option.splits if_splits)

lemma applyColumnOp_boardOk:
  assumes b: "boards s bid = Some b" and ok: "boardOk b"
      and fresh: "freshColumnId s x"
  shows "\<exists>b'. boards (applyColumnOp s x) bid = Some b' \<and> boardOk b'"
proof (cases x)
  case (CreateColumn uid bid' cid title)
  show ?thesis
  proof (cases "bid = bid' \<and> fst (createColumn s uid bid' cid title) = Ok")
    case True
    with fresh b CreateColumn have "cid \<notin> c_id ` set (columns b)" by simp
    from boardOk_append [OF ok this] True b show ?thesis
      by (simp add: CreateColumn createColumn_board)
  next
    case False
    with b ok show ?thesis by (auto simp: CreateColumn createColumn_board)
  qed
next
  case (DeleteColumn uid bid' columnId)
  show ?thesis
  proof (cases "bid = bid' \<and> fst (deleteColumn s uid bid' columnId) = Ok")
    case True
    with deleteColumn_Ok_found [of s uid bid columnId b] b
    obtain i where i: "findIndex (\<lambda>c. c_id c = columnId) (columns b) = Some i" by auto
    from boardOk_remove [OF ok i] True b i show ?thesis
      by (simp add: DeleteColumn deleteColumn_board)
  next
    case False
    with b ok show ?thesis by (auto simp: DeleteColumn deleteColumn_board)
  qed
next
  case (ReorderColumns uid bid' newOrder)
  with b ok show ?thesis by (simp add: reorderColumns_unchanged)
qed

text \<open>
  Claim C4. Take a board whose column ids are distinct and whose \<open>columnOrder\<close> is a
  permutation of them, as every newly created board is, and any sequence of
  \<open>createColumn\<close>, \<open>deleteColumn\<close> and \<open>reorderColumns\<close> requests, on this or other
  boards, successful or not, in which each new column gets a fresh id. Afterwards the board
  still exists, its column ids are distinct, and its \<open>columnOrder\<close> is a permutation of
  them: no duplicate, no id missing, no id that is not a column's. (A \<open>reorderColumns\<close>
  request, whatever list it carries, leaves the board as it is.)
\<close>

theorem columnOrder_stays_permutation:
  assumes "boards s bid = Some b" and "boardOk b" and "freshColumnIds s ops"
  shows "\<exists>b'. boards (runColumnOps s ops) bid = Some b' \<and> boardOk b' \<and>
              distinct (columnOrder b') \<and> set (columnOrder b') = c_id ` set (columns b')"
  using assms
proof (induction ops arbitrary: s b)
  case Nil
  then show ?case by (auto simp: boardOk_def isPermutationOfColumns_def)
next
  case (Cons x ops)
  from Cons.prems have "freshColumnId s x" by simp
  from applyColumnOp_boardOk [OF Cons.prems(1,2) this]
  obtain b1 where b1: "boards (applyColumnOp s x) bid = Some b1" "boardOk b1" by blast
  from Cons.prems have "freshColumnIds (applyColumnOp s x) ops" by simp
  from Cons.IH [OF b1 this] show ?case by simp
qed

theorem columnOrder_stays_permutation_witness:
  "boardOk (the (boards db_started 20)) \<and>
   freshColumnIds db_started
     [CreateColumn 5 20 34 ''Review'', ReorderColumns 5 20 [34, 33], DeleteColumn 5 20 32] \<and>
   boardOk (the (boards (runColumnOps db_started
      [CreateColumn 5 20 34 ''Review'', ReorderColumns 5 20 [34, 33], DeleteColumn 5 20 32]) 20)) \<and>
   columnOrder (the (boards (runColumnOps db_started
      [CreateColumn 5 20 34 ''Review'', ReorderColumns 5 20 [34, 33], DeleteColumn 5 20 32]) 20))
     = [31, 33, 34] \<and>
   map c_id (columns (the (boards (runColumnOps db_started
      [CreateColumn 5 20 34 ''Review'', ReorderColumns 5 20 [34, 33], DeleteColumn 5 20 32]) 20)))
     = [31, 33, 34]"
proof -
  let ?ops = "[CreateColumn 5 20 34 ''Review'', ReorderColumns 5 20 [34, 33],
               DeleteColumn 5 20 32]"
  let ?b = "\<lparr>b_title = ''Main Board'', b_description = ''Default board for the project'',
       b_project = 10,
       columns = [\<lparr>c_id = 31, c_title = ''To Do'', c_order = 0, taskIds = []\<rparr>,
                  \<lparr>c_id = 32, c_title = ''In Progress'', c_order = 1, taskIds = []\<rparr>,
                  \<lparr>c_id = 33, c_title = ''Done'', c_order = 2, taskIds = []\<rparr>],
       columnOrder = [31, 32, 33]\<rparr>"
  have 1: "boards db_started 20 = Some ?b" by (simp add: db_started_eval)
  have 2: "boardOk ?b" by (simp add: boardOk_def isPermutationOfColumns_def)
  have ev: "columnOrder (the (boards (runColumnOps db_started ?ops) 20)) = [31, 33, 34]"
    "map c_id (columns (the (boards (runColumnOps db_started ?ops) 20))) = [31, 33, 34]"
    by (simp_all add: createColumn_def deleteColumn_def reorderColumns_unchanged withBoard_def
        canAccessBoard_def isMember_def db_started_eval trim_def isSpace_def
        array_splice_def spliceStart_def)
  have 3: "freshColumnIds db_started ?ops"
    by (simp add: createColumn_def deleteColumn_def reorderColumns_unchanged withBoard_def
        canAccessBoard_def isMember_def db_started_eval trim_def isSpace_def
        array_splice_def spliceStart_def)
  from columnOrder_stays_permutation [OF 1 2 3] ev 1 2 3 show ?thesis by auto
qed

section \<open>Placement of tasks\<close>



















end
